theory Spec2Isabelle
  imports Complex_Main "HOL-Library.Word"
begin

unbundle bit_operations_syntax

section \<open>Request-ID middleware (request\_id.go)\<close>

text \<open>
  A shallow embedding of the Go package \<^verbatim>\<open>requestid\<close>. Go strings are byte
  sequences and are modelled as \<^typ>\<open>string\<close>; a \<^verbatim>\<open>[]byte\<close> is a list of
  8-bit words; \<^verbatim>\<open>http.Header\<close> (a \<^verbatim>\<open>map[string][]string\<close>) is a partial
  map from keys to value lists. Every function that mutates an object reached through
  a pointer takes the state of the request being served and returns the new one.
\<close>

subsection \<open>Collaborators from the Go standard library\<close>

type_synonym byte = "8 word"

type_synonym Header = "string \<rightharpoonup> string list"

text \<open>
  \<^verbatim>\<open>textproto.CanonicalMIMEHeaderKey\<close>: a key made only of token bytes gets an
  upper-case letter at the start and after each \<^verbatim>\<open>-\<close> and lower-case letters
  elsewhere; a key with any other byte is returned as it is.
\<close>

definition isDigit :: "char \<Rightarrow> bool" where
  "isDigit c = ((48::nat) \<le> of_char c \<and> of_char c \<le> (57::nat))"

definition isLower :: "char \<Rightarrow> bool" where
  "isLower c = ((97::nat) \<le> of_char c \<and> of_char c \<le> (122::nat))"

definition isUpper :: "char \<Rightarrow> bool" where
  "isUpper c = ((65::nat) \<le> of_char c \<and> of_char c \<le> (90::nat))"

definition toLower :: nat where
  "toLower = 32"

definition validHeaderFieldByte :: "char \<Rightarrow> bool" where
  "validHeaderFieldByte c =
     (isDigit c \<or> isLower c \<or> isUpper c \<or>
      c \<in> set [CHR ''!'', CHR ''#'', CHR ''$'', CHR ''%'', CHR ''&'', CHR 0x27, CHR ''*'',
                CHR ''+'', CHR ''-'', CHR ''.'', CHR ''^'', CHR ''_'', CHR 0x60, CHR ''|'',
                CHR ''~''])"

fun canonicalMIMEHeaderKey :: "bool \<Rightarrow> string \<Rightarrow> string" where
  "canonicalMIMEHeaderKey upper [] = []"
| "canonicalMIMEHeaderKey upper (c # a) =
     (let c' = (if upper \<and> isLower c then char_of (of_char c - toLower)
                else if \<not> upper \<and> isUpper c then char_of (of_char c + toLower)
                else c)
      in c' # canonicalMIMEHeaderKey (c' = CHR ''-'') a)"

definition CanonicalMIMEHeaderKey :: "string \<Rightarrow> string" where
  "CanonicalMIMEHeaderKey s =
     (if list_all validHeaderFieldByte s then canonicalMIMEHeaderKey True s else s)"

text \<open>
  \<^verbatim>\<open>Header.Get\<close> returns the first value stored under the canonical form of the
  key, or the empty string; \<^verbatim>\<open>Header.Set\<close> replaces the value list stored under
  the canonical form of the key by the one-element list.
\<close>

definition Header_Get :: "Header \<Rightarrow> string \<Rightarrow> string" where
  "Header_Get h key =
     (case h (CanonicalMIMEHeaderKey key) of
        None \<Rightarrow> ''''
      | Some [] \<Rightarrow> ''''
      | Some (v # _) \<Rightarrow> v)"

definition Header_Set :: "Header \<Rightarrow> string \<Rightarrow> string \<Rightarrow> Header" where
  "Header_Set h key val = h(CanonicalMIMEHeaderKey key \<mapsto> [val])"

text \<open>
  \<^verbatim>\<open>hex.EncodeToString\<close>: two characters of \<^verbatim>\<open>hextable\<close> for each byte,
  the high nibble first.
\<close>

definition hextable :: string where
  "hextable = ''0123456789abcdef''"

fun EncodeToString :: "byte list \<Rightarrow> string" where
  "EncodeToString [] = []"
| "EncodeToString (v # src) =
     hextable ! unat (drop_bit 4 v) # hextable ! unat (v AND 0x0f) # EncodeToString src"

text \<open>
  \<^verbatim>\<open>float64(n) / 1000000000\<close> and the verb \<^verbatim>\<open>%f\<close>. A finite binary64 value
  is the pair \<open>(m, e)\<close> of an integer significand and an exponent, standing for
  \<open>m * 2 ^ e\<close>. Conversion and division round the exact result \<open>a / b\<close> to 53
  significant bits, ties to the even significand (\<open>binaryExponent p b\<close> is the
  exponent of the leading bit of \<open>p / b\<close>); \<^verbatim>\<open>%f\<close> prints the exact value rounded to six
  decimals, ties to even, with the sign of the value. (The values that arise from an
  \<^verbatim>\<open>int64\<close> are far from overflow and from the subnormal range, which are left out.)
\<close>

definition roundHalfEven :: "int \<Rightarrow> int \<Rightarrow> int" where
  "roundHalfEven a b =
     (let q = a div b; r = a mod b
      in if 2 * r < b then q
         else if b < 2 * r then q + 1
         else if even q then q else q + 1)"

function bitLen :: "int \<Rightarrow> nat" where
  "bitLen a = (if a \<le> 0 then 0 else Suc (bitLen (a div 2)))"
  by pat_completeness auto
termination
  by (relation "measure nat") auto

declare bitLen.simps [simp del]

type_synonym float64 = "int \<times> int"

definition binaryExponent :: "int \<Rightarrow> int \<Rightarrow> int" where
  "binaryExponent p b =
     (let d = int (bitLen p) - int (bitLen b)
      in if (if 0 \<le> d then b * 2 ^ nat d \<le> p else b \<le> p * 2 ^ nat (- d))
         then d else d - 1)"

definition float64_round :: "int \<Rightarrow> int \<Rightarrow> float64" where
  "float64_round a b =
     (if a = 0 then (0, 0)
      else
        let k = binaryExponent \<bar>a\<bar> b - 52;
            m = (if 0 \<le> k then roundHalfEven \<bar>a\<bar> (b * 2 ^ nat k)
                 else roundHalfEven (\<bar>a\<bar> * 2 ^ nat (- k)) b)
        in (sgn a * m, k))"

definition float64_value :: "float64 \<Rightarrow> real" where
  "float64_value x = real_of_int (fst x) * 2 powi (snd x)"

definition float64_of_int64 :: "64 word \<Rightarrow> float64" where
  "float64_of_int64 n = float64_round (sint n) 1"

definition float64_quo :: "float64 \<Rightarrow> int \<Rightarrow> float64" where
  "float64_quo x c =
     (case x of (m, e) \<Rightarrow>
        if 0 \<le> e then float64_round (m * 2 ^ nat e) c
        else float64_round m (c * 2 ^ nat (- e)))"

function itoa :: "int \<Rightarrow> string" where
  "itoa n = (if n < 10 then [char_of (48 + n)]
             else itoa (n div 10) @ [char_of (48 + n mod 10)])"
  by pat_completeness auto
termination
  by (relation "measure nat") auto

declare itoa.simps [simp del]

definition micros :: "float64 \<Rightarrow> int" where
  "micros x =
     (case x of (m, e) \<Rightarrow>
        if 0 \<le> e then \<bar>m\<bar> * 10 ^ 6 * 2 ^ nat e
        else roundHalfEven (\<bar>m\<bar> * 10 ^ 6) (2 ^ nat (- e)))"

definition Sprintf_f :: "float64 \<Rightarrow> string" where
  "Sprintf_f x =
     (let frac = itoa (micros x mod 10 ^ 6)
      in (if fst x < 0 then ''-'' else '''') @ itoa (micros x div 10 ^ 6) @ ''.'' @
         replicate (6 - length frac) CHR ''0'' @ frac)"

subsection \<open>The state of one request\<close>

text \<open>
  The request and the response writer that the host passes to the middleware, and what
  else the package reads or writes while it serves the request: the entry of gorilla's
  context table for this request, the clock, the entropy source behind
  \<^verbatim>\<open>rand.Reader\<close> and the state owned by injected functions. The request and the
  response writer are the host's: both are present, and each has its own allocated
  header map, as \<^verbatim>\<open>net/http\<close> builds them (a \<^verbatim>\<open>nil\<close> map, on which an
  assignment panics, is not a request or response the server hands to a handler).
  \<open>UnixNano\<close> is what \<^verbatim>\<open>time.Now().UnixNano()\<close> returns.
\<close>

record Request =
  Method :: string
  URL :: string
  r_Header :: Header
  Body :: "byte list"

record ResponseWriter =
  rw_Header :: Header
  status :: nat
  written :: "byte list"

datatype iface = IString string | IInt int

record 'u World =
  response :: ResponseWriter
  request :: Request
  context_data :: "iface \<rightharpoonup> iface"
  UnixNano :: "64 word"
  rand_Reader :: "byte list list"
  user :: 'u

text \<open>
  \<^verbatim>\<open>rand.Read(b)\<close> is \<^verbatim>\<open>io.ReadFull(rand.Reader, b)\<close>: it reports no error
  if and only if it filled the whole buffer; on an error the bytes it did get are in the
  front of the buffer and the rest of the buffer is untouched. \<^const>\<open>rand_Reader\<close>
  lists, call by call, the bytes the source delivers before it stops; a source with
  nothing listed delivers nothing. Returning the error is the contract of
  \<^verbatim>\<open>crypto/rand.Read\<close> through Go 1.23; the contract of Go 1.24 and later, under
  which a failed read ends the program, is \<open>rand_Read_on\<close> further down.
\<close>

definition rand_Read :: "byte list \<Rightarrow> 'u World \<Rightarrow> (byte list \<times> bool) \<times> 'u World" where
  "rand_Read b w =
     (case rand_Reader w of
        [] \<Rightarrow> ((b, 0 < length b), w)
      | bs # rest \<Rightarrow>
          (let got = take (length b) bs
           in ((got @ drop (length got) b, length got < length b),
               w\<lparr>rand_Reader := rest\<rparr>)))"

subsection \<open>Constants and strategy types\<close>

definition DefaultIDHeader :: string where
  "DefaultIDHeader = ''X-Command-ID''"

text \<open>
  An interface value is one of the package's implementations; the function-carrying
  variants stand for the injected functions (and, for the generator, for any other
  implementation of the interface). An injected function returns: it has no error result.
\<close>

datatype 'u IDGenerator =
    randomIDGenerator
  | timestampIDGenerator
  | otherIDGenerator "'u World \<Rightarrow> string \<times> 'u World"

datatype 'u IDSource =
    sourceHeader string
  | sourceCustom "'u World \<Rightarrow> string \<times> 'u World"

datatype 'u IDSaveHandler =
    saveHandlerHeader string
  | saveHandlerContext iface
  | saveHandlerCustom "string \<Rightarrow> 'u World \<Rightarrow> 'u World"

datatype 'u IDPostProcessor =
    postProcessorHeader string
  | postProcessorCustom "string \<Rightarrow> 'u World \<Rightarrow> 'u World"

definition GetRequestID :: "Request \<Rightarrow> string" where
  "GetRequestID r = Header_Get (r_Header r) DefaultIDHeader"

subsection \<open>Generators\<close>


definition NewTimestampIDGenerator :: "'u IDGenerator" where
  "NewTimestampIDGenerator = timestampIDGenerator"

definition randomIDGenerator_Generate :: "'u World \<Rightarrow> string \<times> 'u World" where
  "randomIDGenerator_Generate w =
     (case rand_Read (replicate 16 0) w of
        ((r, err), w') \<Rightarrow> if err then ('''', w') else (EncodeToString r, w'))"

definition timestampIDGenerator_Generate :: "'u World \<Rightarrow> string \<times> 'u World" where
  "timestampIDGenerator_Generate w =
     (case rand_Read (replicate 2 0) w of
        ((r, err), w') \<Rightarrow>
          (Sprintf_f (float64_quo (float64_of_int64 (UnixNano w')) 1000000000) @ ''.'' @
             EncodeToString r,
           w'))"

fun Generate :: "'u IDGenerator \<Rightarrow> 'u World \<Rightarrow> string \<times> 'u World" where
  "Generate randomIDGenerator w = randomIDGenerator_Generate w"
| "Generate timestampIDGenerator w = timestampIDGenerator_Generate w"
| "Generate (otherIDGenerator fn) w = fn w"

subsection \<open>Sources\<close>

definition NewSourceHeader :: "string \<Rightarrow> 'u IDSource" where
  "NewSourceHeader header = sourceHeader header"

definition NewSourceCustom :: "('u World \<Rightarrow> string \<times> 'u World) \<Rightarrow> 'u IDSource" where
  "NewSourceCustom fn = sourceCustom fn"

fun GetID :: "'u IDSource \<Rightarrow> 'u World \<Rightarrow> string \<times> 'u World" where
  "GetID (sourceHeader header) w = (Header_Get (r_Header (request w)) header, w)"
| "GetID (sourceCustom fn) w = fn w"

subsection \<open>Save handlers\<close>

text \<open>
  \<^verbatim>\<open>r.Header.Set(s.header, id)\<close>, \<^verbatim>\<open>context.Set(r, s.field, id)\<close> and the
  injected function. (The identifier is written \<open>ident\<close>: \<open>id\<close> is HOL's identity.)
\<close>

definition NewSaveHandlerHeader :: "string \<Rightarrow> 'u IDSaveHandler" where
  "NewSaveHandlerHeader header = saveHandlerHeader header"

definition NewSaveHandlerContext :: "iface \<Rightarrow> 'u IDSaveHandler" where
  "NewSaveHandlerContext field = saveHandlerContext field"

definition NewSaveHandlerCustom :: "(string \<Rightarrow> 'u World \<Rightarrow> 'u World) \<Rightarrow> 'u IDSaveHandler" where
  "NewSaveHandlerCustom fn = saveHandlerCustom fn"

definition saveHandlerHeader_SaveID :: "string \<Rightarrow> string \<Rightarrow> 'u World \<Rightarrow> 'u World" where
  "saveHandlerHeader_SaveID header ident w =
     w\<lparr>request := (request w)\<lparr>r_Header := Header_Set (r_Header (request w)) header ident\<rparr>\<rparr>"

definition saveHandlerContext_SaveID :: "iface \<Rightarrow> string \<Rightarrow> 'u World \<Rightarrow> 'u World" where
  "saveHandlerContext_SaveID field ident w =
     w\<lparr>context_data := (context_data w)(field \<mapsto> IString ident)\<rparr>"

fun SaveID :: "'u IDSaveHandler \<Rightarrow> string \<Rightarrow> 'u World \<Rightarrow> 'u World" where
  "SaveID (saveHandlerHeader header) ident w = saveHandlerHeader_SaveID header ident w"
| "SaveID (saveHandlerContext field) ident w = saveHandlerContext_SaveID field ident w"
| "SaveID (saveHandlerCustom fn) ident w = fn ident w"

subsection \<open>Post-processors\<close>

text \<open>\<^verbatim>\<open>rw.Header()[p.header] = []string{id}\<close>: a plain assignment to the map.\<close>

definition NewPostProcessorHeader :: "string \<Rightarrow> 'u IDPostProcessor" where
  "NewPostProcessorHeader field = postProcessorHeader field"

definition NewPostProcessorCustom :: "(string \<Rightarrow> 'u World \<Rightarrow> 'u World) \<Rightarrow> 'u IDPostProcessor" where
  "NewPostProcessorCustom fn = postProcessorCustom fn"

definition postProcessorHeader_Process :: "string \<Rightarrow> string \<Rightarrow> 'u World \<Rightarrow> 'u World" where
  "postProcessorHeader_Process header ident w =
     w\<lparr>response := (response w)\<lparr>rw_Header := (rw_Header (response w))(header \<mapsto> [ident])\<rparr>\<rparr>"

fun Process :: "'u IDPostProcessor \<Rightarrow> string \<Rightarrow> 'u World \<Rightarrow> 'u World" where
  "Process (postProcessorHeader header) ident w = postProcessorHeader_Process header ident w"
| "Process (postProcessorCustom fn) ident w = fn ident w"

subsection \<open>The injector\<close>

text \<open>
  A field of interface type holds an implementation or \<^verbatim>\<open>nil\<close>. Calling a method
  on a \<^verbatim>\<open>nil\<close> interface, or reading a field through a \<^verbatim>\<open>nil\<close> pointer, is
  a run-time panic.
\<close>

record 'u IDInjectorOptions =
  IDGenerator :: "'u IDGenerator option"
  IDSource :: "'u IDSource option"
  IDSaveHandler :: "'u IDSaveHandler option"
  IDPostProcessor :: "'u IDPostProcessor option"

record 'u requestIDInjector =
  idGenerator :: "'u IDGenerator option"
  idSource :: "'u IDSource option"
  idSaveHandler :: "'u IDSaveHandler option"
  idPostProcessor :: "'u IDPostProcessor option"

datatype panic = NilPointerDereference

definition applyDefaults :: "'u requestIDInjector \<Rightarrow> 'u requestIDInjector" where
  "applyDefaults v =
     (let v1 = (if idGenerator v = None
                then v\<lparr>idGenerator := Some NewTimestampIDGenerator\<rparr> else v);
          v2 = (if idSource v1 = None
                then v1\<lparr>idSource := Some (NewSourceHeader DefaultIDHeader)\<rparr> else v1);
          v3 = (if idSaveHandler v2 = None
                then v2\<lparr>idSaveHandler := Some (NewSaveHandlerHeader DefaultIDHeader)\<rparr> else v2)
      in if idPostProcessor v3 = None
         then v3\<lparr>idPostProcessor := Some (NewPostProcessorHeader DefaultIDHeader)\<rparr> else v3)"

definition NewRequestIDInjector ::
    "'u IDInjectorOptions option \<Rightarrow> panic + 'u requestIDInjector" where
  "NewRequestIDInjector o' =
     (case o' of
        None \<Rightarrow> Inl NilPointerDereference
      | Some opts \<Rightarrow>
          Inr (applyDefaults
                 \<lparr>idGenerator = IDGenerator opts, idSource = IDSource opts,
                  idSaveHandler = IDSaveHandler opts, idPostProcessor = IDPostProcessor opts\<rparr>))"

text \<open>
  \<^verbatim>\<open>ServeHTTP\<close>. To state which calls the routine makes, in which order and with
  which arguments, the model keeps a log beside the state: one entry for each call made
  through a strategy field and for the call of \<^verbatim>\<open>next\<close>, with the identifier passed
  and the request and response as they are at the call.
\<close>

datatype Call =
    Call_GetID Request
  | Call_Generate
  | Call_SaveID ResponseWriter Request string
  | Call_Process ResponseWriter Request string
  | Call_next ResponseWriter Request

record 'u Served =
  calls :: "Call list"
  world :: "'u World"

definition ServeHTTP ::
    "'u requestIDInjector \<Rightarrow> ('u World \<Rightarrow> 'u World) \<Rightarrow> 'u World \<Rightarrow> panic + 'u Served" where
  "ServeHTTP v next w =
     (case idSource v of
        None \<Rightarrow> Inl NilPointerDereference
      | Some src \<Rightarrow>
         (case GetID src w of (id0, w1) \<Rightarrow>
           (case (if id0 = ''''
                  then (case idGenerator v of
                          None \<Rightarrow> Inl NilPointerDereference
                        | Some gen \<Rightarrow>
                            (case Generate gen w1 of (id1, w2) \<Rightarrow>
                               Inr (id1, w2, [Call_GetID (request w), Call_Generate])))
                  else Inr (id0, w1, [Call_GetID (request w)])) of
              Inl e \<Rightarrow> Inl e
            | Inr (ident, w2, log2) \<Rightarrow>
               (case idSaveHandler v of
                  None \<Rightarrow> Inl NilPointerDereference
                | Some sav \<Rightarrow>
                   (let w3 = SaveID sav ident w2
                    in case idPostProcessor v of
                         None \<Rightarrow> Inl NilPointerDereference
                       | Some pp \<Rightarrow>
                          (let w4 = Process pp ident w3
                           in Inr \<lparr>calls = log2 @
                                     [Call_SaveID (response w2) (request w2) ident,
                                      Call_Process (response w3) (request w3) ident,
                                      Call_next (response w4) (request w4)],
                                   world = next w4\<rparr>))))))"

subsection \<open>The two contracts of \<^verbatim>\<open>crypto/rand.Read\<close>\<close>

text \<open>
  The repository fixes no Go release, and \<^verbatim>\<open>crypto/rand.Read\<close> has had two
  contracts. Through Go 1.23 a failed read is returned as an error, which is what
  \<^const>\<open>rand_Read\<close> and the functions above model. Since Go 1.24 \<^verbatim>\<open>Read\<close> never
  returns an error: when the read from \<^verbatim>\<open>rand.Reader\<close> fails, the program is
  terminated on the spot (a fatal error, which no \<^verbatim>\<open>recover\<close> catches). The
  functions below are the same source lines with the contract as a parameter; a call that
  does not return is the value \<open>Inl\<close>.
\<close>

datatype rand_contract = ReturnsError | Terminates

datatype abort = Panic panic | FatalError

definition rand_Read_on ::
    "rand_contract \<Rightarrow> byte list \<Rightarrow> 'u World \<Rightarrow> abort + ((byte list \<times> bool) \<times> 'u World)" where
  "rand_Read_on c b w =
     (case rand_Read b w of
        ((b', err), w') \<Rightarrow>
          if err \<and> c = Terminates then Inl FatalError else Inr ((b', err), w'))"

definition randomIDGenerator_Generate_on ::
    "rand_contract \<Rightarrow> 'u World \<Rightarrow> abort + (string \<times> 'u World)" where
  "randomIDGenerator_Generate_on c w =
     (case rand_Read_on c (replicate 16 0) w of
        Inl e \<Rightarrow> Inl e
      | Inr ((r, err), w') \<Rightarrow> if err then Inr ('''', w') else Inr (EncodeToString r, w'))"

definition timestampIDGenerator_Generate_on ::
    "rand_contract \<Rightarrow> 'u World \<Rightarrow> abort + (string \<times> 'u World)" where
  "timestampIDGenerator_Generate_on c w =
     (case rand_Read_on c (replicate 2 0) w of
        Inl e \<Rightarrow> Inl e
      | Inr ((r, err), w') \<Rightarrow>
          Inr (Sprintf_f (float64_quo (float64_of_int64 (UnixNano w')) 1000000000) @ ''.'' @
                 EncodeToString r,
               w'))"

fun Generate_on ::
    "rand_contract \<Rightarrow> 'u IDGenerator \<Rightarrow> 'u World \<Rightarrow> abort + (string \<times> 'u World)" where
  "Generate_on c randomIDGenerator w = randomIDGenerator_Generate_on c w"
| "Generate_on c timestampIDGenerator w = timestampIDGenerator_Generate_on c w"
| "Generate_on c (otherIDGenerator fn) w = Inr (fn w)"

definition ServeHTTP_on ::
    "rand_contract \<Rightarrow> 'u requestIDInjector \<Rightarrow> ('u World \<Rightarrow> 'u World) \<Rightarrow> 'u World \<Rightarrow>
       abort + 'u Served" where
  "ServeHTTP_on c v next w =
     (case idSource v of
        None \<Rightarrow> Inl (Panic NilPointerDereference)
      | Some src \<Rightarrow>
         (case GetID src w of (id0, w1) \<Rightarrow>
           (case (if id0 = ''''
                  then (case idGenerator v of
                          None \<Rightarrow> Inl (Panic NilPointerDereference)
                        | Some gen \<Rightarrow>
                            (case Generate_on c gen w1 of
                               Inl e \<Rightarrow> Inl e
                             | Inr (id1, w2) \<Rightarrow>
                                 Inr (id1, w2, [Call_GetID (request w), Call_Generate])))
                  else Inr (id0, w1, [Call_GetID (request w)])) of
              Inl e \<Rightarrow> Inl e
            | Inr (ident, w2, log2) \<Rightarrow>
               (case idSaveHandler v of
                  None \<Rightarrow> Inl (Panic NilPointerDereference)
                | Some sav \<Rightarrow>
                   (let w3 = SaveID sav ident w2
                    in case idPostProcessor v of
                         None \<Rightarrow> Inl (Panic NilPointerDereference)
                       | Some pp \<Rightarrow>
                          (let w4 = Process pp ident w3
                           in Inr \<lparr>calls = log2 @
                                     [Call_SaveID (response w2) (request w2) ident,
                                      Call_Process (response w3) (request w3) ident,
                                      Call_next (response w4) (request w4)],
                                   world = next w4\<rparr>))))))"

subsection \<open>Example states\<close>

text \<open>
  Concrete requests and states, used to instantiate the theorems below: a request that
  carries \<^verbatim>\<open>X-Command-ID: abc123\<close> (stored, as \<^verbatim>\<open>net/http\<close> does, under the
  canonical key), a request without headers, a fresh response writer, and a downstream
  handler that answers with status 200.
\<close>

definition request_abc123 :: Request where
  "request_abc123 =
     \<lparr>Method = ''GET'', URL = ''/'', r_Header = [''X-Command-Id'' \<mapsto> [''abc123'']], Body = []\<rparr>"

definition request_plain :: Request where
  "request_plain = \<lparr>Method = ''GET'', URL = ''/'', r_Header = Map.empty, Body = []\<rparr>"

definition response_fresh :: ResponseWriter where
  "response_fresh = \<lparr>rw_Header = Map.empty, status = 0, written = []\<rparr>"

definition world_of :: "Request \<Rightarrow> byte list list \<Rightarrow> unit World" where
  "world_of r entropy =
     \<lparr>response = response_fresh, request = r, context_data = Map.empty,
      UnixNano = 1446400000123456789, rand_Reader = entropy, user = ()\<rparr>"

definition handler_ok :: "unit World \<Rightarrow> unit World" where
  "handler_ok w = w\<lparr>response := (response w)\<lparr>status := 200\<rparr>\<rparr>"

definition options_unset :: "'u IDInjectorOptions" where
  "options_unset =
     \<lparr>IDGenerator = None, IDSource = None, IDSaveHandler = None, IDPostProcessor = None\<rparr>"

definition injector_default :: "'u requestIDInjector" where
  "injector_default =
     \<lparr>idGenerator = Some timestampIDGenerator, idSource = Some (sourceHeader DefaultIDHeader),
      idSaveHandler = Some (saveHandlerHeader DefaultIDHeader),
      idPostProcessor = Some (postProcessorHeader DefaultIDHeader)\<rparr>"

definition options_explicit :: "'u IDInjectorOptions" where
  "options_explicit =
     \<lparr>IDGenerator = Some NewTimestampIDGenerator,
      IDSource = Some (NewSourceHeader DefaultIDHeader),
      IDSaveHandler = Some (NewSaveHandlerHeader DefaultIDHeader),
      IDPostProcessor = Some (NewPostProcessorHeader DefaultIDHeader)\<rparr>"



section \<open>Properties\<close>

subsection \<open>Auxiliary facts\<close>

lemma nibble_hi: "unat (drop_bit 4 (v :: byte)) < 16"
proof -
  have "unat (drop_bit 4 v) = unat v div 16"
    by (simp add: drop_bit_eq_div unat_div)
  moreover have "unat v < 256"
    using unsigned_less [of v, where 'a = nat] by simp
  ultimately show ?thesis by simp
qed

lemma nibble_lo: "unat ((v :: byte) AND 0x0f) < 16"
proof -
  have m: "(0x0f :: byte) = mask 4"
    by (simp add: mask_eq_exp_minus_1)
  have "v AND mask 4 < 2 ^ 4"
    by (rule and_mask_less_size) (simp add: word_size)
  then have "unat (v AND mask 4) < unat (2 ^ 4 :: byte)"
    by (simp only: word_less_nat_alt)
  then show ?thesis
    unfolding m by simp
qed

lemma hextable_nth: "n < 16 \<Longrightarrow> hextable ! n \<in> set hextable"
  by (rule nth_mem) (simp add: hextable_def)

lemma EncodeToString_length: "length (EncodeToString src) = 2 * length src"
  by (induction src) simp_all

lemma EncodeToString_hex: "set (EncodeToString src) \<subseteq> set hextable"
  by (induction src) (simp_all add: hextable_nth nibble_hi nibble_lo)

lemma NewRequestIDInjector_slots:
  assumes "NewRequestIDInjector (Some opts) = Inr v"
  shows "\<exists>gen src sav pp. idGenerator v = Some gen \<and> idSource v = Some src \<and>
           idSaveHandler v = Some sav \<and> idPostProcessor v = Some pp"
  using assms by (auto simp add: NewRequestIDInjector_def applyDefaults_def Let_def)

lemma ServeHTTP_resolved:
  assumes "idGenerator v = Some gen" "idSource v = Some src"
    "idSaveHandler v = Some sav" "idPostProcessor v = Some pp"
  shows "ServeHTTP v next w =
     (let id0 = fst (GetID src w); w1 = snd (GetID src w);
          ident = (if id0 = '''' then fst (Generate gen w1) else id0);
          w2 = (if id0 = '''' then snd (Generate gen w1) else w1);
          w3 = SaveID sav ident w2;
          w4 = Process pp ident w3
      in Inr \<lparr>calls = Call_GetID (request w) # (if id0 = '''' then [Call_Generate] else []) @
                 [Call_SaveID (response w2) (request w2) ident,
                  Call_Process (response w3) (request w3) ident,
                  Call_next (response w4) (request w4)],
               world = next w4\<rparr>)"
  using assms by (simp add: ServeHTTP_def Let_def split: prod.split)

lemma applyDefaults_unset:
  "applyDefaults \<lparr>idGenerator = None, idSource = None, idSaveHandler = None, idPostProcessor = None\<rparr> =
     (\<lparr>idGenerator = Some timestampIDGenerator, idSource = Some (sourceHeader DefaultIDHeader),
      idSaveHandler = Some (saveHandlerHeader DefaultIDHeader),
      idPostProcessor = Some (postProcessorHeader DefaultIDHeader)\<rparr> :: 'u requestIDInjector)"
  by (simp add: applyDefaults_def NewTimestampIDGenerator_def NewSourceHeader_def
      NewSaveHandlerHeader_def NewPostProcessorHeader_def)

lemma Canonical_Default: "CanonicalMIMEHeaderKey DefaultIDHeader = ''X-Command-Id''"
  by code_simp

lemma Header_Get_Set: "Header_Get (Header_Set h key val) key = val"
  by (simp add: Header_Get_def Header_Set_def)

lemma ServeHTTP_default:
  "ServeHTTP injector_default next w =
     (let id0 = Header_Get (r_Header (request w)) DefaultIDHeader;
          ident = (if id0 = '''' then fst (timestampIDGenerator_Generate w) else id0);
          w2 = (if id0 = '''' then snd (timestampIDGenerator_Generate w) else w);
          w3 = saveHandlerHeader_SaveID DefaultIDHeader ident w2;
          w4 = postProcessorHeader_Process DefaultIDHeader ident w3
      in Inr \<lparr>calls = Call_GetID (request w) # (if id0 = '''' then [Call_Generate] else []) @
                 [Call_SaveID (response w2) (request w2) ident,
                  Call_Process (response w3) (request w3) ident,
                  Call_next (response w4) (request w4)],
               world = next w4\<rparr>)"
  using ServeHTTP_resolved [of injector_default timestampIDGenerator "sourceHeader DefaultIDHeader"
      "saveHandlerHeader DefaultIDHeader" "postProcessorHeader DefaultIDHeader" "next" w]
  by (simp add: injector_default_def Let_def)

lemma NewRequestIDInjector_unset:
  "NewRequestIDInjector (Some options_unset) = Inr injector_default"
  by (simp add: NewRequestIDInjector_def options_unset_def injector_default_def applyDefaults_unset)


lemma NewRequestIDInjector_explicit:
  "NewRequestIDInjector (Some options_explicit) = Inr injector_default"
  by (simp add: NewRequestIDInjector_def options_explicit_def injector_default_def
      applyDefaults_def NewTimestampIDGenerator_def NewSourceHeader_def
      NewSaveHandlerHeader_def NewPostProcessorHeader_def)

lemma applyDefaults_injector_default: "applyDefaults injector_default = injector_default"
  by (simp add: injector_default_def applyDefaults_def)

lemma ServeHTTP_nil_fields:
  "ServeHTTP \<lparr>idGenerator = None, idSource = None, idSaveHandler = None,
     idPostProcessor = None\<rparr> next w = Inl NilPointerDereference"
  by (simp add: ServeHTTP_def)

subsection \<open>Rounding error of the timestamp\<close>

text \<open>
  Each of the two roundings to binary64 is off by at most the fraction \<open>1 / 2 ^ 53\<close> of
  the exact result, and the rounding to six decimals by at most half a microsecond. For
  a clock reading in the range of \<^verbatim>\<open>int64\<close> the printed number of microseconds is
  therefore within 2549 nanoseconds of the reading.
\<close>

lemma roundHalfEven_err:
  assumes "0 < b"
  shows "2 * \<bar>b * roundHalfEven a b - a\<bar> \<le> b"
proof -
  define q where "q = a div b"
  define r where "r = a mod b"
  have a: "a = b * q + r"
    by (simp add: q_def r_def)
  have r: "0 \<le> r" "r < b"
    using assms by (simp_all add: r_def)
  have "roundHalfEven a b = q \<and> 2 * r \<le> b \<or> roundHalfEven a b = q + 1 \<and> b \<le> 2 * r"
    by (auto simp add: roundHalfEven_def Let_def q_def r_def)
  then show ?thesis
    using a r by (auto simp add: algebra_simps)
qed

lemma roundHalfEven_real:
  assumes "0 < b"
  shows "\<bar>real_of_int (roundHalfEven a b) - real_of_int a / real_of_int b\<bar> \<le> 1 / 2"
proof -
  define B where "B = real_of_int b"
  define A where "A = real_of_int a"
  define Q where "Q = real_of_int (roundHalfEven a b)"
  have B: "0 < B"
    using assms by (simp add: B_def)
  have "real_of_int (2 * \<bar>b * roundHalfEven a b - a\<bar>) \<le> real_of_int b"
    using roundHalfEven_err [OF assms, of a] by (simp only: of_int_le_iff)
  then have e: "\<bar>B * Q - A\<bar> \<le> B / 2"
    by (simp add: B_def A_def Q_def)
  have "Q - A / B = (B * Q - A) / B"
    using B by (simp add: field_simps)
  then have "\<bar>Q - A / B\<bar> = \<bar>B * Q - A\<bar> / B"
    using B by simp
  also have "\<dots> \<le> (B / 2) / B"
    using e B by (simp add: divide_right_mono)
  also have "\<dots> = 1 / 2"
    using B by simp
  finally show ?thesis
    by (simp add: B_def A_def Q_def)
qed

lemma bitLen_bounds:
  "0 < a \<Longrightarrow> 2 ^ (bitLen a - 1) \<le> a \<and> a < 2 ^ bitLen a"
proof (induction a rule: bitLen.induct)
  case (1 a)
  show ?case
  proof (cases "a div 2 = 0")
    case True
    with 1(2) have "a = 1" by presburger
    then show ?thesis
      by (simp add: bitLen.simps [of 1] bitLen.simps [of 0])
  next
    case False
    with 1(2) have p: "0 < a div 2" by presburger
    from 1(1) [OF _ p] 1(2) have ih: "2 ^ (bitLen (a div 2) - 1) \<le> a div 2" "a div 2 < 2 ^ bitLen (a div 2)"
      by simp_all
    have b: "bitLen a = Suc (bitLen (a div 2))"
      using 1(2) by (simp add: bitLen.simps [of a])
    have pos: "0 < bitLen (a div 2)"
      using p by (simp add: bitLen.simps [of "a div 2"])
    then obtain j where j: "bitLen (a div 2) = Suc j"
      by (cases "bitLen (a div 2)") simp_all
    show ?thesis
      using ih unfolding b j by simp presburger
  qed
qed

lemma bitLen_real:
  assumes "0 < a"
  shows "2 powi (int (bitLen a) - 1) \<le> real_of_int a" "real_of_int a < 2 powi (int (bitLen a))"
proof -
  from bitLen_bounds [OF assms] have b: "2 ^ (bitLen a - 1) \<le> a" "a < 2 ^ bitLen a"
    by simp_all
  have "0 < bitLen a"
    using assms by (simp add: bitLen.simps [of a])
  then obtain j where j: "bitLen a = Suc j"
    by (cases "bitLen a") simp_all
  have "real_of_int (2 ^ j) \<le> real_of_int a"
    using b(1) unfolding j by (simp only: of_int_le_iff diff_Suc_1)
  then show "2 powi (int (bitLen a) - 1) \<le> real_of_int a"
    unfolding j by (simp add: power_int_of_nat)
  have "real_of_int a < real_of_int (2 ^ bitLen a)"
    using b(2) by (simp only: of_int_less_iff)
  then show "real_of_int a < 2 powi (int (bitLen a))"
    by (simp add: power_int_of_nat)
qed

lemma binaryExponent_bounds:
  assumes "0 < p" "0 < b"
  shows "real_of_int b * 2 powi (binaryExponent p b) \<le> real_of_int p"
    and "real_of_int p < real_of_int b * 2 powi (binaryExponent p b + 1)"
proof -
  define d where "d = int (bitLen p) - int (bitLen b)"
  define P where "P = real_of_int p"
  define B where "B = real_of_int b"
  have B: "0 < B" and P: "0 < P"
    using assms by (simp_all add: B_def P_def)
  have test: "(if 0 \<le> d then b * 2 ^ nat d \<le> p else b \<le> p * 2 ^ nat (- d)) = (B * 2 powi d \<le> P)"
  proof (cases "0 \<le> d")
    case True
    have "(b * 2 ^ nat d \<le> p) = (real_of_int (b * 2 ^ nat d) \<le> real_of_int p)"
      by (simp only: of_int_le_iff)
    then show ?thesis
      using True by (simp add: power_int_def B_def P_def)
  next
    case False
    have "(b \<le> p * 2 ^ nat (- d)) = (real_of_int b \<le> real_of_int (p * 2 ^ nat (- d)))"
      by (simp only: of_int_le_iff)
    then show ?thesis
      using False by (simp add: power_int_def B_def P_def field_simps)
  qed
  have up: "P < B * 2 powi (d + 1)"
  proof -
    have "P < 2 powi (int (bitLen p))"
      using bitLen_real(2) [OF assms(1)] by (simp add: P_def)
    also have "int (bitLen p) = (int (bitLen b) - 1) + (d + 1)"
      by (simp add: d_def)
    also have "(2::real) powi ((int (bitLen b) - 1) + (d + 1)) = 2 powi (int (bitLen b) - 1) * 2 powi (d + 1)"
      by (rule power_int_add) simp
    also have "\<dots> \<le> B * 2 powi (d + 1)"
      using bitLen_real(1) [OF assms(2)] by (simp add: B_def)
    finally show ?thesis .
  qed
  have lo: "B * 2 powi (d - 1) < P"
  proof -
    have "B * 2 powi (d - 1) < 2 powi (int (bitLen b)) * 2 powi (d - 1)"
      using bitLen_real(2) [OF assms(2)] by (simp add: B_def)
    also have "\<dots> = 2 powi (int (bitLen b) + (d - 1))"
      by (rule power_int_add [symmetric]) simp
    also have "int (bitLen b) + (d - 1) = int (bitLen p) - 1"
      by (simp add: d_def)
    also have "2 powi (int (bitLen p) - 1) \<le> P"
      using bitLen_real(1) [OF assms(1)] by (simp add: P_def)
    finally show ?thesis .
  qed
  have be: "binaryExponent p b = (if B * 2 powi d \<le> P then d else d - 1)"
    unfolding binaryExponent_def Let_def d_def [symmetric] test ..
  show "real_of_int b * 2 powi (binaryExponent p b) \<le> real_of_int p"
    using lo unfolding be by (simp add: B_def P_def)
  show "real_of_int p < real_of_int b * 2 powi (binaryExponent p b + 1)"
    using up unfolding be by (simp add: B_def P_def)
qed

lemma float64_round_pos:
  assumes "0 < p" "0 < b"
  defines "k \<equiv> binaryExponent p b - 52"
  defines "m \<equiv> (if 0 \<le> k then roundHalfEven p (b * 2 ^ nat k)
                   else roundHalfEven (p * 2 ^ nat (- k)) b)"
  shows "\<bar>real_of_int m * 2 powi k - real_of_int p / real_of_int b\<bar>
           \<le> (real_of_int p / real_of_int b) / 2 ^ 53"
    and "0 < m"
proof -
  define R where "R = real_of_int p / real_of_int b"
  define K where "K = (2::real) powi k"
  have B: "0 < real_of_int b" and K: "0 < K"
    using assms(2) by (simp_all add: K_def)
  have lo: "2 powi (k + 52) \<le> R"
    using binaryExponent_bounds(1) [OF assms(1,2)] B
    by (simp add: R_def k_def field_simps)
  have K52: "2 powi (k + 52) = K * 2 ^ 52"
    unfolding K_def by (subst power_int_add) simp_all
  have m: "\<bar>real_of_int m - R / K\<bar> \<le> 1 / 2"
  proof (cases "0 \<le> k")
    case True
    have pos: "0 < b * 2 ^ nat k"
      using assms(2) by simp
    have "real_of_int p / real_of_int (b * 2 ^ nat k) = R / K"
      using True by (simp add: R_def K_def power_int_def)
    then show ?thesis
      using roundHalfEven_real [OF pos, of p] True by (simp add: m_def)
  next
    case False
    have "real_of_int (p * 2 ^ nat (- k)) / real_of_int b = R / K"
      using False by (simp add: R_def K_def power_int_def field_simps)
    then show ?thesis
      using roundHalfEven_real [OF assms(2), of "p * 2 ^ nat (- k)"] False by (simp add: m_def)
  qed
  have "real_of_int m * K - R = K * (real_of_int m - R / K)"
    using K by (simp add: field_simps)
  then have "\<bar>real_of_int m * K - R\<bar> = K * \<bar>real_of_int m - R / K\<bar>"
    using K by (simp add: abs_mult)
  also have "\<dots> \<le> K * (1 / 2)"
    using m K by (simp only: mult_le_cancel_left_pos)
  also have "\<dots> = (K * 2 ^ 52) / 2 ^ 53"
    by simp
  also have "\<dots> \<le> R / 2 ^ 53"
    using lo unfolding K52 by (simp add: divide_right_mono)
  finally show "\<bar>real_of_int m * 2 powi k - real_of_int p / real_of_int b\<bar>
           \<le> (real_of_int p / real_of_int b) / 2 ^ 53"
    by (simp add: K_def R_def)
  have "2 ^ 52 \<le> R / K"
    using lo K unfolding K52 by (simp add: field_simps)
  moreover have "(1::real) \<le> 2 ^ 52"
    by simp
  ultimately have "0 < real_of_int m"
    using m by linarith
  then show "0 < m"
    by simp
qed

lemma roundHalfEven_nonneg: "0 \<le> a \<Longrightarrow> 0 < b \<Longrightarrow> 0 \<le> roundHalfEven a b"
  by (simp add: roundHalfEven_def Let_def pos_imp_zdiv_nonneg_iff)

lemma float64_round_value:
  assumes "a \<noteq> 0" "0 < b"
  shows "\<bar>float64_value (float64_round a b) - real_of_int a / real_of_int b\<bar>
           \<le> \<bar>real_of_int a / real_of_int b\<bar> / 2 ^ 53"
    and "(fst (float64_round a b) < 0) = (a < 0)"
    and "fst (float64_round a b) \<noteq> 0"
proof -
  define k where "k = binaryExponent \<bar>a\<bar> b - 52"
  define m where "m = (if 0 \<le> k then roundHalfEven \<bar>a\<bar> (b * 2 ^ nat k)
                       else roundHalfEven (\<bar>a\<bar> * 2 ^ nat (- k)) b)"
  have p: "0 < \<bar>a\<bar>"
    using assms(1) by simp
  have r: "float64_round a b = (sgn a * m, k)"
    using assms(1) by (simp add: float64_round_def Let_def k_def m_def)
  note e = float64_round_pos [OF p assms(2), folded k_def, folded m_def]
  have "float64_value (float64_round a b) - real_of_int a / real_of_int b =
      real_of_int (sgn a) * (real_of_int m * 2 powi k - real_of_int \<bar>a\<bar> / real_of_int b)"
  proof (cases "0 < a")
    case True
    then show ?thesis
      unfolding r float64_value_def by (simp add: algebra_simps)
  next
    case False
    with assms(1) have "a < 0"
      by simp
    then show ?thesis
      unfolding r float64_value_def by (simp add: algebra_simps)
  qed
  moreover have "\<bar>real_of_int (sgn a)\<bar> = 1"
    using assms(1) by (simp add: sgn_if)
  ultimately have "\<bar>float64_value (float64_round a b) - real_of_int a / real_of_int b\<bar> =
      \<bar>real_of_int m * 2 powi k - real_of_int \<bar>a\<bar> / real_of_int b\<bar>"
    by (simp add: abs_mult)
  also have "\<dots> \<le> (real_of_int \<bar>a\<bar> / real_of_int b) / 2 ^ 53"
    by (rule e(1))
  also have "\<dots> = \<bar>real_of_int a / real_of_int b\<bar> / 2 ^ 53"
    using assms(2) by simp
  finally show "\<bar>float64_value (float64_round a b) - real_of_int a / real_of_int b\<bar>
           \<le> \<bar>real_of_int a / real_of_int b\<bar> / 2 ^ 53" .
  show "(fst (float64_round a b) < 0) = (a < 0)"
    unfolding r using e(2) assms(1) by (simp add: mult_less_0_iff sgn_if)
  show "fst (float64_round a b) \<noteq> 0"
    unfolding r using e(2) assms(1) by (simp add: sgn_if)
qed

lemma float64_quo_value:
  assumes "fst x \<noteq> 0" "0 < c"
  shows "\<bar>float64_value (float64_quo x c) - float64_value x / real_of_int c\<bar>
           \<le> \<bar>float64_value x / real_of_int c\<bar> / 2 ^ 53"
    and "(fst (float64_quo x c) < 0) = (fst x < 0)"
proof -
  obtain m e where x: "x = (m, e)"
    by (cases x)
  have m: "m \<noteq> 0"
    using assms(1) x by simp
  show "\<bar>float64_value (float64_quo x c) - float64_value x / real_of_int c\<bar>
           \<le> \<bar>float64_value x / real_of_int c\<bar> / 2 ^ 53"
  proof (cases "0 \<le> e")
    case True
    have nz: "m * 2 ^ nat e \<noteq> 0"
      using m by simp
    have eq: "real_of_int (m * 2 ^ nat e) / real_of_int c = float64_value x / real_of_int c"
      using True by (simp add: x float64_value_def power_int_def)
    have q: "float64_quo x c = float64_round (m * 2 ^ nat e) c"
      using True by (simp add: x float64_quo_def)
    show ?thesis
      using float64_round_value(1) [OF nz assms(2)] unfolding q eq .
  next
    case False
    have pos: "0 < c * 2 ^ nat (- e)"
      using assms(2) by simp
    have eq: "real_of_int m / real_of_int (c * 2 ^ nat (- e)) = float64_value x / real_of_int c"
      using False by (simp add: x float64_value_def power_int_def field_simps)
    have q: "float64_quo x c = float64_round m (c * 2 ^ nat (- e))"
      using False by (simp add: x float64_quo_def)
    show ?thesis
      using float64_round_value(1) [OF m pos] unfolding q eq .
  qed
  show "(fst (float64_quo x c) < 0) = (fst x < 0)"
  proof (cases "0 \<le> e")
    case True
    have nz: "m * 2 ^ nat e \<noteq> 0"
      using m by simp
    show ?thesis
      using float64_round_value(2) [OF nz assms(2)] True
      by (simp add: x float64_quo_def mult_less_0_iff)
  next
    case False
    have pos: "0 < c * 2 ^ nat (- e)"
      using assms(2) by simp
    show ?thesis
      using float64_round_value(2) [OF m pos] False by (simp add: x float64_quo_def)
  qed
qed

lemma micros_value:
  "0 \<le> micros x"
  "\<bar>real_of_int (micros x) - \<bar>float64_value x\<bar> * 10 ^ 6\<bar> \<le> 1 / 2"
proof -
  obtain m e where x: "x = (m, e)"
    by (cases x)
  show "0 \<le> micros x"
    by (simp add: x micros_def roundHalfEven_nonneg)
  show "\<bar>real_of_int (micros x) - \<bar>float64_value x\<bar> * 10 ^ 6\<bar> \<le> 1 / 2"
  proof (cases "0 \<le> e")
    case True
    then show ?thesis
      by (simp add: x micros_def float64_value_def power_int_def abs_mult)
  next
    case False
    have pos: "(0::int) < 2 ^ nat (- e)"
      by simp
    have eq: "real_of_int (\<bar>m\<bar> * 10 ^ 6) / real_of_int (2 ^ nat (- e)) = \<bar>float64_value x\<bar> * 10 ^ 6"
      using False by (simp add: x float64_value_def power_int_def abs_mult field_simps)
    have q: "micros x = roundHalfEven (\<bar>m\<bar> * 10 ^ 6) (2 ^ nat (- e))"
      using False by (simp add: x micros_def)
    show ?thesis
      using roundHalfEven_real [OF pos, of "\<bar>m\<bar> * 10 ^ 6"] unfolding q eq .
  qed
qed

lemma micros_timestamp:
  fixes n :: "64 word"
  defines "y \<equiv> float64_quo (float64_of_int64 n) 1000000000"
  shows "\<bar>1000 * micros y - \<bar>sint n\<bar>\<bar> \<le> 2549"
    and "(fst y < 0) = (sint n < 0)"
    and "0 \<le> micros y"
proof -
  define N where "N = sint n"
  have range: "- (2 ^ 63) \<le> N" "N < 2 ^ 63"
    using sint_ge [of n] sint_lt [of n] by (simp_all add: N_def)
  show "0 \<le> micros y"
    by (rule micros_value(1))
  show "\<bar>1000 * micros y - \<bar>sint n\<bar>\<bar> \<le> 2549" "(fst y < 0) = (sint n < 0)"
  proof -
    have "\<bar>1000 * micros y - \<bar>N\<bar>\<bar> \<le> 2549 \<and> (fst y < 0) = (N < 0)"
    proof (cases "N = 0")
      case True
      then have "y = (0, 0)"
        by (simp add: y_def float64_of_int64_def float64_round_def float64_quo_def N_def)
      then show ?thesis
        using True by (simp add: micros_def)
    next
      case False
      define x where "x = float64_round N 1"
      define X where "X = float64_value x"
      define Y where "Y = float64_value y"
      define M where "M = real_of_int (micros y)"
      define A where "A = real_of_int \<bar>N\<bar>"
      have yx: "y = float64_quo x 1000000000"
        by (simp add: y_def x_def float64_of_int64_def N_def)
      have A: "0 \<le> A" "A \<le> 2 ^ 63"
        using range by (simp_all add: A_def abs_le_iff)
      have AN: "\<bar>real_of_int N\<bar> = A"
        by (simp add: A_def)
      have x1: "\<bar>X - real_of_int N\<bar> \<le> A / 2 ^ 53"
        using float64_round_value(1) [OF False, of 1] AN by (simp add: X_def x_def)
      have xs: "(fst x < 0) = (N < 0)" "fst x \<noteq> 0"
        using float64_round_value(2,3) [OF False, of 1] by (simp_all add: x_def)
      have y1: "\<bar>Y - X / 1000000000\<bar> \<le> \<bar>X / 1000000000\<bar> / 2 ^ 53"
        using float64_quo_value(1) [OF xs(2), of 1000000000] by (simp add: Y_def X_def yx)
      have ys: "(fst y < 0) = (N < 0)"
        using float64_quo_value(2) [OF xs(2), of 1000000000] xs(1) by (simp add: yx)
      have m1: "\<bar>M - \<bar>Y\<bar> * 1000000\<bar> \<le> 1 / 2"
        using micros_value(2) [of y] by (simp add: M_def Y_def)
      have "A / 2 ^ 53 \<le> 2 ^ 10"
        using A by simp
      with x1 have xb: "\<bar>X - real_of_int N\<bar> \<le> 2 ^ 10"
        by linarith
      have Xb: "\<bar>X\<bar> \<le> 2 ^ 63 + 2 ^ 10"
        using xb A AN by linarith
      have yb: "\<bar>Y - X / 1000000000\<bar> \<le> (2 ^ 63 + 2 ^ 10) / 1000000000 / 2 ^ 53"
      proof -
        have "\<bar>X / 1000000000\<bar> / 2 ^ 53 \<le> (2 ^ 63 + 2 ^ 10) / 1000000000 / 2 ^ 53"
          using Xb by (simp add: field_simps)
        with y1 show ?thesis
          by linarith
      qed
      have "\<bar>\<bar>Y\<bar> - A / 1000000000\<bar> \<le> \<bar>Y - real_of_int N / 1000000000\<bar>"
        using AN by linarith
      also have "\<dots> \<le> \<bar>Y - X / 1000000000\<bar> + \<bar>X / 1000000000 - real_of_int N / 1000000000\<bar>"
        by linarith
      finally have yn: "\<bar>\<bar>Y\<bar> - A / 1000000000\<bar>
          \<le> (2 ^ 63 + 2 ^ 10) / 1000000000 / 2 ^ 53 + 2 ^ 10 / 1000000000"
        using yb xb by linarith
      have c: "((2::real) ^ 63 + 2 ^ 10) / 1000000000 / 2 ^ 53 + 2 ^ 10 / 1000000000
          \<le> 2049 / 1000000000"
        by simp
      have yn': "\<bar>\<bar>Y\<bar> - A / 1000000000\<bar> \<le> 2049 / 1000000000"
        using yn c by linarith
      have "\<bar>1000 * M - A\<bar> \<le> 2549"
        using m1 yn' by linarith
      then have "real_of_int \<bar>1000 * micros y - \<bar>N\<bar>\<bar> \<le> real_of_int 2549"
        by (simp add: M_def A_def)
      then have "\<bar>1000 * micros y - \<bar>N\<bar>\<bar> \<le> 2549"
        by (simp only: of_int_le_iff)
      with ys show ?thesis
        by simp
    qed
    then show "\<bar>1000 * micros y - \<bar>sint n\<bar>\<bar> \<le> 2549" "(fst y < 0) = (sint n < 0)"
      by (simp_all add: N_def)
  qed
qed

lemma itoa_nonempty: "itoa n \<noteq> ''''"
  by (subst itoa.simps) simp

lemma digit_char:
  assumes "0 \<le> d" "d < 10"
  shows "char_of (48 + d :: int) \<in> set ''0123456789''"
proof -
  from assms have "d = 0 \<or> d = 1 \<or> d = 2 \<or> d = 3 \<or> d = 4 \<or> d = 5 \<or> d = 6 \<or> d = 7 \<or> d = 8 \<or> d = 9"
    by presburger
  then show ?thesis
    by (elim disjE) (simp_all add: char_of_def)
qed

lemma itoa_digits: "0 \<le> n \<Longrightarrow> set (itoa n) \<subseteq> set ''0123456789''"
proof (induction n rule: itoa.induct)
  case (1 n)
  show ?case
  proof (cases "n < 10")
    case True
    then have "itoa n = [char_of (48 + n)]"
      by (subst itoa.simps) simp
    then show ?thesis
      using digit_char [OF 1(2) True] by simp
  next
    case False
    then have e: "itoa n = itoa (n div 10) @ [char_of (48 + n mod 10)]"
      by (subst itoa.simps) simp
    have "0 \<le> n div 10"
      using 1(2) by simp
    from 1(1) [OF False this] have "set (itoa (n div 10)) \<subseteq> set ''0123456789''" .
    moreover have "char_of (48 + n mod 10) \<in> set ''0123456789''"
      by (rule digit_char) simp_all
    ultimately show ?thesis
      unfolding e by simp
  qed
qed

lemma itoa_length: "0 \<le> n \<Longrightarrow> n < 10 ^ k \<Longrightarrow> 0 < k \<Longrightarrow> length (itoa n) \<le> k"
proof (induction n arbitrary: k rule: itoa.induct)
  case (1 n)
  show ?case
  proof (cases "n < 10")
    case True
    then have "itoa n = [char_of (48 + n)]"
      by (subst itoa.simps) simp
    then show ?thesis
      using 1(4) by simp
  next
    case False
    then have e: "itoa n = itoa (n div 10) @ [char_of (48 + n mod 10)]"
      by (subst itoa.simps) simp
    obtain j where k: "k = Suc j"
      using 1(4) by (cases k) simp_all
    have j: "0 < j"
    proof (rule ccontr)
      assume "\<not> 0 < j"
      then have "k = 1" using k by simp
      with 1(3) False show False by simp
    qed
    have "n div 10 < 10 ^ j"
      using 1(3) unfolding k by simp
    moreover have "0 \<le> n div 10"
      using 1(2) by simp
    ultimately have "length (itoa (n div 10)) \<le> j"
      using 1(1) [OF False] j by blast
    then show ?thesis
      unfolding e k by simp
  qed
qed

lemma rand_Read_two:
  "rand_Read (replicate 2 0) w =
     (let delivered = (case rand_Reader w of [] \<Rightarrow> [] | bs # _ \<Rightarrow> take 2 bs)
      in ((delivered @ replicate (2 - length delivered) 0, length delivered < 2),
          w\<lparr>rand_Reader := tl (rand_Reader w)\<rparr>))"
  by (cases "rand_Reader w") (simp_all add: rand_Read_def Let_def)

subsection \<open>Facts about the two contracts\<close>

text \<open>
  Under the contract that returns the error, the functions with the contract as a
  parameter are the functions of the first part; under either contract a call that
  returns has returned what those return. The hexadecimal encoding is injective.
\<close>

lemma rand_Read_on_ReturnsError: "rand_Read_on ReturnsError b w = Inr (rand_Read b w)"
  by (simp add: rand_Read_on_def split: prod.split)

lemma rand_Read_on_Terminates:
  "rand_Read_on Terminates b w =
     (if snd (fst (rand_Read b w)) then Inl FatalError else Inr (rand_Read b w))"
  by (simp add: rand_Read_on_def split: prod.split)

lemma Generate_on_ReturnsError: "Generate_on ReturnsError gen w = Inr (Generate gen w)"
  by (cases gen)
    (simp_all add: randomIDGenerator_Generate_on_def timestampIDGenerator_Generate_on_def
      randomIDGenerator_Generate_def timestampIDGenerator_Generate_def
      rand_Read_on_ReturnsError split: prod.split)

lemma ServeHTTP_on_ReturnsError:
  "ServeHTTP_on ReturnsError v next w =
     (case ServeHTTP v next w of Inl p \<Rightarrow> Inl (Panic p) | Inr run \<Rightarrow> Inr run)"
  by (simp add: ServeHTTP_on_def ServeHTTP_def Generate_on_ReturnsError Let_def
      split: option.split prod.split)

lemma ServeHTTP_on_resolved:
  assumes "idGenerator v = Some gen" "idSource v = Some src"
    "idSaveHandler v = Some sav" "idPostProcessor v = Some pp"
  shows "ServeHTTP_on c v next w =
     (case (if fst (GetID src w) = '''' then Generate_on c gen (snd (GetID src w))
            else Inr (GetID src w)) of
        Inl e \<Rightarrow> Inl e
      | Inr (ident, w2) \<Rightarrow>
          Inr \<lparr>calls =
                 Call_GetID (request w) #
                 (if fst (GetID src w) = '''' then [Call_Generate] else []) @
                 [Call_SaveID (response w2) (request w2) ident,
                  Call_Process (response (SaveID sav ident w2)) (request (SaveID sav ident w2))
                    ident,
                  Call_next (response (Process pp ident (SaveID sav ident w2)))
                    (request (Process pp ident (SaveID sav ident w2)))],
               world = next (Process pp ident (SaveID sav ident w2))\<rparr>)"
  using assms
  by (simp add: ServeHTTP_on_def Let_def split: prod.split sum.split)


lemma Generate_on_Inr:
  assumes "Generate_on c gen w = Inr x"
  shows "Generate gen w = x"
  using assms
  by (cases gen)
    (auto simp add: randomIDGenerator_Generate_on_def timestampIDGenerator_Generate_on_def
      randomIDGenerator_Generate_def timestampIDGenerator_Generate_def
      rand_Read_on_def split: prod.splits if_splits sum.splits)

lemma ServeHTTP_on_returns:
  assumes "idGenerator v = Some gen" "idSource v = Some src"
    "idSaveHandler v = Some sav" "idPostProcessor v = Some pp"
    and "ServeHTTP_on c v next w = Inr run"
  shows "ServeHTTP v next w = Inr run"
proof (cases "fst (GetID src w) = ''''")
  case True
  show ?thesis
  proof (cases "Generate_on c gen (snd (GetID src w))")
    case (Inl e)
    with True assms(5) show ?thesis
      unfolding ServeHTTP_on_resolved [OF assms(1-4)] by simp
  next
    case (Inr p)
    from Generate_on_Inr [OF Inr] True Inr assms(5) show ?thesis
      unfolding ServeHTTP_on_resolved [OF assms(1-4)] ServeHTTP_resolved [OF assms(1-4)]
      by (cases p) (simp add: Let_def)
  qed
next
  case False
  with assms(5) show ?thesis
    unfolding ServeHTTP_on_resolved [OF assms(1-4)] ServeHTTP_resolved [OF assms(1-4)]
    by (cases "GetID src w") (simp add: Let_def)
qed

lemma rand_Read_sixteen:
  "rand_Read (replicate 16 0) w =
     (case rand_Reader w of
        [] \<Rightarrow> ((replicate 16 0, True), w)
      | bs # rest \<Rightarrow>
          ((take 16 bs @ replicate (16 - length (take 16 bs)) 0, length bs < 16),
           w\<lparr>rand_Reader := rest\<rparr>))"
  by (cases "rand_Reader w") (auto simp add: rand_Read_def Let_def)

lemma hextable_inj:
  assumes "n < 16" "m < 16" "hextable ! n = hextable ! m"
  shows "n = m"
proof -
  have "distinct hextable"
    by (simp add: hextable_def)
  moreover have "n < length hextable" "m < length hextable"
    using assms by (simp_all add: hextable_def)
  ultimately show ?thesis
    using assms(3) by (simp add: nth_eq_iff_index_eq)
qed

lemma byte_nibbles:
  fixes u v :: byte
  assumes "drop_bit 4 u = drop_bit 4 v" "u AND 0x0f = v AND 0x0f"
  shows "u = v"
proof -
  have m: "(0x0f :: byte) = mask 4"
    by (simp add: mask_eq_exp_minus_1)
  have t: "take_bit 4 u = take_bit 4 v"
    using assms(2) unfolding m by (simp add: take_bit_eq_mask)
  have "push_bit 4 (drop_bit 4 u) + take_bit 4 u = u" "push_bit 4 (drop_bit 4 v) + take_bit 4 v = v"
    by (rule bits_ident)+
  then show ?thesis
    using assms(1) t by metis
qed

lemma EncodeToString_inj: "EncodeToString xs = EncodeToString ys \<Longrightarrow> xs = ys"
proof (induction xs arbitrary: ys)
  case Nil
  then show ?case
    by (cases ys) simp_all
next
  case (Cons x xs)
  then obtain y ys' where ys: "ys = y # ys'"
    by (cases ys) auto
  from Cons.prems have h: "hextable ! unat (drop_bit 4 x) = hextable ! unat (drop_bit 4 y)"
    and l: "hextable ! unat (x AND 0x0f) = hextable ! unat (y AND 0x0f)"
    and r: "EncodeToString xs = EncodeToString ys'"
    unfolding ys by simp_all
  have "unat (drop_bit 4 x) = unat (drop_bit 4 y)"
    by (rule hextable_inj [OF nibble_hi nibble_hi h])
  then have a: "drop_bit 4 x = drop_bit 4 y"
    by (simp only: word_unat_eq_iff)
  have "unat (x AND 0x0f) = unat (y AND 0x0f)"
    by (rule hextable_inj [OF nibble_lo nibble_lo l])
  then have b: "x AND 0x0f = y AND 0x0f"
    by (simp only: word_unat_eq_iff)
  from byte_nibbles [OF a b] Cons.IH [OF r] show ?case
    by (simp add: ys)
qed

lemma timestamp_example:
  "Sprintf_f (float64_quo (float64_of_int64 1446400000123456789) 1000000000) =
     ''1446400000.123457''"
  by code_simp

text \<open>
  The shape of the string the timestamp generator builds, under the contract that
  returns the error: sign, seconds, six decimals of the binary64 quotient, and the
  encoding of the two-byte buffer as the read left it.
\<close>

lemma timestamp_format:
  "let n = sint (UnixNano w);
       micro = micros (float64_quo (float64_of_int64 (UnixNano w)) 1000000000);
       ip = itoa (micro div 10 ^ 6);
       fd = itoa (micro mod 10 ^ 6);
       fp = replicate (6 - length fd) CHR ''0'' @ fd;
       delivered = (case rand_Reader w of [] \<Rightarrow> [] | bs # _ \<Rightarrow> take 2 bs);
       sfx = EncodeToString (delivered @ replicate (2 - length delivered) 0)
   in fst (Generate timestampIDGenerator w) =
        (if n < 0 then ''-'' else '''') @ ip @ ''.'' @ fp @ ''.'' @ sfx \<and>
      ip \<noteq> '''' \<and> set ip \<subseteq> set ''0123456789'' \<and>
      length fp = 6 \<and> set fp \<subseteq> set ''0123456789'' \<and>
      0 \<le> micro \<and> \<bar>1000 * micro - \<bar>n\<bar>\<bar> \<le> 2549 \<and>
      length sfx = 4 \<and> set sfx \<subseteq> set ''0123456789abcdef'' \<and>
      snd (fst (rand_Read (replicate 2 0) w)) = (length delivered < 2) \<and>
      (delivered = [] \<longrightarrow> sfx = ''0000'')"
proof -
  define n where "n = sint (UnixNano w)"
  define y where "y = float64_quo (float64_of_int64 (UnixNano w)) 1000000000"
  define micro where "micro = micros y"
  define ip where "ip = itoa (micro div 10 ^ 6)"
  define fd where "fd = itoa (micro mod 10 ^ 6)"
  define fp where "fp = replicate (6 - length fd) CHR ''0'' @ fd"
  define delivered where "delivered = (case rand_Reader w of [] \<Rightarrow> [] | bs # _ \<Rightarrow> take 2 bs)"
  define sfx where "sfx = EncodeToString (delivered @ replicate (2 - length delivered) 0)"
  note t = micros_timestamp [of "UnixNano w", folded y_def, folded micro_def n_def]
  have g: "fst (Generate timestampIDGenerator w) =
      (if n < 0 then ''-'' else '''') @ ip @ ''.'' @ fp @ ''.'' @ sfx"
    using t(2)
    by (simp add: timestampIDGenerator_Generate_def rand_Read_two Let_def Sprintf_f_def
        y_def [symmetric] micro_def [symmetric] ip_def fd_def fp_def delivered_def sfx_def)
  have ip: "ip \<noteq> ''''" "set ip \<subseteq> set ''0123456789''"
    using t(3) itoa_digits [of "micro div 10 ^ 6"]
    by (simp_all add: ip_def itoa_nonempty pos_imp_zdiv_nonneg_iff)
  have fdl: "length fd \<le> 6"
    unfolding fd_def by (rule itoa_length) simp_all
  have fds: "set fd \<subseteq> set ''0123456789''"
    unfolding fd_def by (rule itoa_digits) simp
  have fp: "length fp = 6" "set fp \<subseteq> set ''0123456789''"
    using fdl fds by (auto simp add: fp_def)
  have dl: "length delivered \<le> 2"
    by (simp add: delivered_def split: list.split)
  have sl: "length sfx = 4"
    using dl by (simp add: sfx_def EncodeToString_length)
  have sh: "set sfx \<subseteq> set ''0123456789abcdef''"
    using EncodeToString_hex [of "delivered @ replicate (2 - length delivered) 0"]
    by (simp add: sfx_def hextable_def)
  have e: "snd (fst (rand_Read (replicate 2 0) w)) = (length delivered < 2)"
    by (simp add: rand_Read_two Let_def delivered_def)
  have z: "delivered = [] \<longrightarrow> sfx = ''0000''"
    by (simp add: sfx_def hextable_def numeral_2_eq_2)
  show ?thesis
    unfolding Let_def
    using g ip fp t(1,3) sl sh e z
    unfolding n_def y_def micro_def ip_def fd_def fp_def delivered_def sfx_def
    by blast
qed

lemma Generate_on_timestamp:
  "Generate_on c timestampIDGenerator w =
     (if snd (fst (rand_Read (replicate 2 0) w)) \<and> c = Terminates then Inl FatalError
      else Inr (fst (Generate timestampIDGenerator w), w\<lparr>rand_Reader := tl (rand_Reader w)\<rparr>))"
  by (simp add: timestampIDGenerator_Generate_on_def timestampIDGenerator_Generate_def
      rand_Read_on_def rand_Read_two Let_def)

lemma Generate_on_timestamp_delivered:
  assumes "rand_Reader w = bs # rest" "2 \<le> length bs"
  shows "Generate_on c timestampIDGenerator w =
     Inr (Sprintf_f (float64_quo (float64_of_int64 (UnixNano w)) 1000000000) @ ''.'' @
            EncodeToString (take 2 bs),
          w\<lparr>rand_Reader := rest\<rparr>)"
  using assms
  by (simp add: timestampIDGenerator_Generate_on_def rand_Read_on_def rand_Read_def Let_def
      del: EncodeToString.simps)

subsection \<open>The header-based save handler\<close>

text \<open>
  C8. For every request, response and identifier, \<^verbatim>\<open>SaveID\<close> of the header-based
  save handler stores the one-element list holding the identifier under the configured
  header of the request, whatever was stored there before (it overwrites, it does not
  append), so that reading the header back gives the identifier; the response is
  unchanged, and so is everything else but the request's header map.
\<close>

theorem saveHandlerHeader_SaveID_sets_request_header:
  "let w' = SaveID (saveHandlerHeader header) ident w
   in r_Header (request w') = (r_Header (request w))(CanonicalMIMEHeaderKey header \<mapsto> [ident])
      \<and> Header_Get (r_Header (request w')) header = ident
      \<and> response w' = response w
      \<and> w' = w\<lparr>request := (request w)\<lparr>r_Header := r_Header (request w')\<rparr>\<rparr>"
  by (simp add: saveHandlerHeader_SaveID_def Header_Set_def Header_Get_def)

theorem saveHandlerHeader_SaveID_sets_request_header_witness:
  "r_Header (request (SaveID (saveHandlerHeader DefaultIDHeader) ''xyz''
      (world_of request_abc123 []))) = [''X-Command-Id'' \<mapsto> [''xyz'']] \<and>
   Header_Get (r_Header (request (SaveID (saveHandlerHeader DefaultIDHeader) ''xyz''
      (world_of request_abc123 [])))) DefaultIDHeader = ''xyz'' \<and>
   response (SaveID (saveHandlerHeader DefaultIDHeader) ''xyz'' (world_of request_abc123 [])) =
     response_fresh"
  using saveHandlerHeader_SaveID_sets_request_header
    [of DefaultIDHeader "''xyz''" "world_of request_abc123 []"]
  by (simp add: Let_def Canonical_Default Header_Get_def world_of_def request_abc123_def)

subsection \<open>The per-request routine\<close>



text \<open>
  C2. Serving a request with an injector built by \<^verbatim>\<open>NewRequestIDInjector\<close> resolves
  one identifier: the value \<^verbatim>\<open>GetID\<close> returned or, if that is the empty string, the
  value of the one call of \<^verbatim>\<open>Generate\<close> made right after it. The calls that follow
  are \<^verbatim>\<open>SaveID\<close>, \<^verbatim>\<open>Process\<close> and the downstream handler, with nothing
  generated in between (\<^verbatim>\<open>Generate\<close> occurs at most once in the log), and the string
  passed to \<^verbatim>\<open>SaveID\<close> and the string passed to \<^verbatim>\<open>Process\<close> are both this
  identifier. The state handed to the downstream handler is the state after these two
  calls. Under either contract of \<^verbatim>\<open>crypto/rand.Read\<close>, a call of the routine that
  returns is this run.
\<close>

theorem ServeHTTP_one_identifier:
  assumes "NewRequestIDInjector (Some opts) = Inr v"
  shows "\<exists>gen src sav pp run ident w2.
     idGenerator v = Some gen \<and> idSource v = Some src \<and>
     idSaveHandler v = Some sav \<and> idPostProcessor v = Some pp \<and>
     (ident, w2) = (if fst (GetID src w) = '''' then Generate gen (snd (GetID src w))
                    else GetID src w) \<and>
     ServeHTTP v next w = Inr run \<and>
     calls run =
       Call_GetID (request w) # (if fst (GetID src w) = '''' then [Call_Generate] else []) @
       [Call_SaveID (response w2) (request w2) ident,
        Call_Process (response (SaveID sav ident w2)) (request (SaveID sav ident w2)) ident,
        Call_next (response (Process pp ident (SaveID sav ident w2)))
          (request (Process pp ident (SaveID sav ident w2)))] \<and>
     length (filter (\<lambda>c. c = Call_Generate) (calls run)) \<le> 1 \<and>
     world run = next (Process pp ident (SaveID sav ident w2)) \<and>
     (\<forall>c run'. ServeHTTP_on c v next w = Inr run' \<longrightarrow> run' = run)"
proof -
  from NewRequestIDInjector_slots [OF assms] obtain gen src sav pp where
    slots: "idGenerator v = Some gen" "idSource v = Some src"
      "idSaveHandler v = Some sav" "idPostProcessor v = Some pp"
    by blast
  define ident where
    "ident = fst (if fst (GetID src w) = '''' then Generate gen (snd (GetID src w)) else GetID src w)"
  define w2 where
    "w2 = snd (if fst (GetID src w) = '''' then Generate gen (snd (GetID src w)) else GetID src w)"
  define run where "run = \<lparr>calls =
       Call_GetID (request w) # (if fst (GetID src w) = '''' then [Call_Generate] else []) @
       [Call_SaveID (response w2) (request w2) ident,
        Call_Process (response (SaveID sav ident w2)) (request (SaveID sav ident w2)) ident,
        Call_next (response (Process pp ident (SaveID sav ident w2)))
          (request (Process pp ident (SaveID sav ident w2)))],
       world = next (Process pp ident (SaveID sav ident w2))\<rparr>"
  have resolved: "(ident, w2) =
      (if fst (GetID src w) = '''' then Generate gen (snd (GetID src w)) else GetID src w)"
    by (simp add: ident_def w2_def)
  have served: "ServeHTTP v next w = Inr run"
    using ServeHTTP_resolved [OF slots, of "next" w]
    by (simp add: Let_def run_def ident_def w2_def)
  have log: "calls run =
       Call_GetID (request w) # (if fst (GetID src w) = '''' then [Call_Generate] else []) @
       [Call_SaveID (response w2) (request w2) ident,
        Call_Process (response (SaveID sav ident w2)) (request (SaveID sav ident w2)) ident,
        Call_next (response (Process pp ident (SaveID sav ident w2)))
          (request (Process pp ident (SaveID sav ident w2)))]"
    by (simp add: run_def)
  have once: "length (filter (\<lambda>c. c = Call_Generate) (calls run)) \<le> 1"
    unfolding log by simp
  have result: "world run = next (Process pp ident (SaveID sav ident w2))"
    by (simp add: run_def)
  have either: "\<forall>c run'. ServeHTTP_on c v next w = Inr run' \<longrightarrow> run' = run"
    using ServeHTTP_on_returns [OF slots, of _ "next" w] served by auto
  from slots resolved served log once result either show ?thesis
    by blast
qed

theorem ServeHTTP_one_identifier_witness:
  "NewRequestIDInjector (Some options_unset) = Inr (injector_default :: unit requestIDInjector) \<and>
   (\<exists>run.
      ServeHTTP injector_default handler_ok (world_of request_plain [[0xab, 0xcd]]) = Inr run \<and>
      calls run =
        [Call_GetID request_plain, Call_Generate,
         Call_SaveID response_fresh request_plain ''1446400000.123457.abcd'',
         Call_Process response_fresh
           (request_plain\<lparr>r_Header := [''X-Command-Id'' \<mapsto> [''1446400000.123457.abcd'']]\<rparr>)
           ''1446400000.123457.abcd'',
         Call_next
           (response_fresh\<lparr>rw_Header := [''X-Command-ID'' \<mapsto> [''1446400000.123457.abcd'']]\<rparr>)
           (request_plain\<lparr>r_Header := [''X-Command-Id'' \<mapsto> [''1446400000.123457.abcd'']]\<rparr>)])"
proof -
  have h: "NewRequestIDInjector (Some options_unset) = Inr (injector_default :: unit requestIDInjector)"
    by (rule NewRequestIDInjector_unset)
  have t: "Sprintf_f (float64_quo (float64_of_int64 1446400000123456789) 1000000000) =
      ''1446400000.123457''"
    by code_simp
  have e: "EncodeToString [0xab, 0xcd] = ''abcd''"
    by code_simp
  have g: "timestampIDGenerator_Generate (world_of request_plain [[0xab, 0xcd]]) =
      (''1446400000.123457.abcd'', world_of request_plain [])"
    by (simp add: timestampIDGenerator_Generate_def rand_Read_def world_of_def Let_def t e
        del: EncodeToString.simps)
  have s: "GetID (sourceHeader DefaultIDHeader) (world_of request_plain bs) =
      ('''', world_of request_plain bs)" for bs
    by (simp add: world_of_def request_plain_def Header_Get_def)
  have i: "idGenerator (injector_default :: unit requestIDInjector) = Some timestampIDGenerator"
    "idSource (injector_default :: unit requestIDInjector) = Some (sourceHeader DefaultIDHeader)"
    "idSaveHandler (injector_default :: unit requestIDInjector) = Some (saveHandlerHeader DefaultIDHeader)"
    "idPostProcessor (injector_default :: unit requestIDInjector) = Some (postProcessorHeader DefaultIDHeader)"
    by (simp_all add: injector_default_def)
  from ServeHTTP_one_identifier [OF h, of "world_of request_plain [[0xab, 0xcd]]" handler_ok]
  obtain gen src sav pp run ident w2 where
    slots: "idGenerator (injector_default :: unit requestIDInjector) = Some gen"
      "idSource (injector_default :: unit requestIDInjector) = Some src"
      "idSaveHandler (injector_default :: unit requestIDInjector) = Some sav"
      "idPostProcessor (injector_default :: unit requestIDInjector) = Some pp"
    and resolved: "(ident, w2) =
      (if fst (GetID src (world_of request_plain [[0xab, 0xcd]])) = ''''
       then Generate gen (snd (GetID src (world_of request_plain [[0xab, 0xcd]])))
       else GetID src (world_of request_plain [[0xab, 0xcd]]))"
    and served: "ServeHTTP injector_default handler_ok (world_of request_plain [[0xab, 0xcd]]) =
      Inr run"
    and log: "calls run =
       Call_GetID (request (world_of request_plain [[0xab, 0xcd]])) #
       (if fst (GetID src (world_of request_plain [[0xab, 0xcd]])) = '''' then [Call_Generate]
        else []) @
       [Call_SaveID (response w2) (request w2) ident,
        Call_Process (response (SaveID sav ident w2)) (request (SaveID sav ident w2)) ident,
        Call_next (response (Process pp ident (SaveID sav ident w2)))
          (request (Process pp ident (SaveID sav ident w2)))]"
    by blast
  from slots i have p: "gen = timestampIDGenerator" "src = sourceHeader DefaultIDHeader"
    "sav = saveHandlerHeader DefaultIDHeader" "pp = postProcessorHeader DefaultIDHeader"
    by simp_all
  from resolved have r: "ident = ''1446400000.123457.abcd''" "w2 = world_of request_plain []"
    unfolding p s by (simp_all add: g)
  have "calls run =
        [Call_GetID request_plain, Call_Generate,
         Call_SaveID response_fresh request_plain ''1446400000.123457.abcd'',
         Call_Process response_fresh
           (request_plain\<lparr>r_Header := [''X-Command-Id'' \<mapsto> [''1446400000.123457.abcd'']]\<rparr>)
           ''1446400000.123457.abcd'',
         Call_next
           (response_fresh\<lparr>rw_Header := [''X-Command-ID'' \<mapsto> [''1446400000.123457.abcd'']]\<rparr>)
           (request_plain\<lparr>r_Header := [''X-Command-Id'' \<mapsto> [''1446400000.123457.abcd'']]\<rparr>)]"
    unfolding log p r s
    by (simp add: world_of_def request_plain_def response_fresh_def
        saveHandlerHeader_SaveID_def postProcessorHeader_Process_def Header_Set_def
        Canonical_Default)
      (simp add: DefaultIDHeader_def)
  with h served show ?thesis
    by blast
qed

subsection \<open>The default configuration\<close>

text \<open>
  C3. Let the injector be built from options with no field set, and let the request carry
  a non-empty value under \<^verbatim>\<open>X-Command-ID\<close> (for instance \<^verbatim>\<open>abc123\<close>). Then the
  routine generates nothing and calls the downstream handler on a request whose
  \<^verbatim>\<open>X-Command-ID\<close> header still reads as that value, so that \<^verbatim>\<open>GetRequestID\<close>
  returns it, and on a response whose header map holds exactly that value under
  \<^verbatim>\<open>X-Command-ID\<close>.
\<close>

theorem ServeHTTP_keeps_incoming_identifier:
  assumes "NewRequestIDInjector (Some options_unset) = Inr v"
    and "Header_Get (r_Header (request w)) DefaultIDHeader = val"
    and "val \<noteq> ''''"
  shows "\<exists>run rw' r'.
     ServeHTTP v next w = Inr run \<and>
     last (calls run) = Call_next rw' r' \<and>
     world run = next (w\<lparr>request := r', response := rw'\<rparr>) \<and>
     Header_Get (r_Header r') DefaultIDHeader = val \<and>
     rw_Header rw' DefaultIDHeader = Some [val] \<and>
     GetRequestID r' = val \<and>
     Call_Generate \<notin> set (calls run)"
proof -
  have v: "v = injector_default"
    using assms(1) by (simp add: NewRequestIDInjector_unset)
  show ?thesis
    unfolding v ServeHTTP_default
    using assms(2,3)
    by (simp add: Let_def saveHandlerHeader_SaveID_def postProcessorHeader_Process_def
        GetRequestID_def Header_Get_Set)
qed

theorem ServeHTTP_keeps_incoming_identifier_witness:
  "NewRequestIDInjector (Some options_unset) = Inr (injector_default :: unit requestIDInjector) \<and>
   Header_Get (r_Header (request (world_of request_abc123 []))) DefaultIDHeader = ''abc123'' \<and>
   ''abc123'' \<noteq> '''' \<and>
   (\<exists>run rw' r'.
     ServeHTTP injector_default handler_ok (world_of request_abc123 []) = Inr run \<and>
     last (calls run) = Call_next rw' r' \<and>
     world run = handler_ok ((world_of request_abc123 [])\<lparr>request := r', response := rw'\<rparr>) \<and>
     Header_Get (r_Header r') DefaultIDHeader = ''abc123'' \<and>
     rw_Header rw' DefaultIDHeader = Some [''abc123''] \<and>
     GetRequestID r' = ''abc123'' \<and>
     Call_Generate \<notin> set (calls run))"
proof -
  have h: "NewRequestIDInjector (Some options_unset) = Inr (injector_default :: unit requestIDInjector)"
    by (rule NewRequestIDInjector_unset)
  have g: "Header_Get (r_Header (request (world_of request_abc123 []))) DefaultIDHeader = ''abc123''"
    by (simp add: world_of_def request_abc123_def Header_Get_def Canonical_Default)
  have n: "''abc123'' \<noteq> ''''"
    by simp
  show ?thesis
    using h g n ServeHTTP_keeps_incoming_identifier [OF h g n, of handler_ok]
    by blast
qed

text \<open>
  C7. Let the injector be built from options with no field set, let the request carry no
  value under \<^verbatim>\<open>X-Command-ID\<close>, and let the entropy source deliver at least two
  bytes to the next read. Then, under either contract of \<^verbatim>\<open>crypto/rand.Read\<close>, the
  routine returns, having called the timestamp generator once, during this request. The
  identifier resolved is the generator's result: the clock reading printed in seconds,
  a dot, and the hexadecimal encoding of the two bytes this call took from the entropy
  source (which are consumed). It is not empty; it is what \<^verbatim>\<open>SaveID\<close> and
  \<^verbatim>\<open>Process\<close> receive, what the request and response headers hold when the
  downstream handler is called, and what \<^verbatim>\<open>GetRequestID\<close> returns there. It is
  generated, not taken from the request: two other bytes from the entropy source give
  another identifier, and another request gives the same one.
\<close>

theorem ServeHTTP_generates_when_absent:
  assumes "NewRequestIDInjector (Some options_unset) = Inr v"
    and "Header_Get (r_Header (request w)) DefaultIDHeader = ''''"
    and "rand_Reader w = bs # rest"
    and "2 \<le> length bs"
  shows "\<exists>run ident w2 w4.
     ident = Sprintf_f (float64_quo (float64_of_int64 (UnixNano w)) 1000000000) @ ''.'' @
               EncodeToString (take 2 bs) \<and>
     ident \<noteq> '''' \<and>
     w2 = w\<lparr>rand_Reader := rest\<rparr> \<and>
     Generate_on c timestampIDGenerator w = Inr (ident, w2) \<and>
     w4 = w2\<lparr>request := (request w)\<lparr>r_Header := (r_Header (request w))(''X-Command-Id'' \<mapsto> [ident])\<rparr>,
             response := (response w)\<lparr>rw_Header := (rw_Header (response w))(''X-Command-ID'' \<mapsto> [ident])\<rparr>\<rparr> \<and>
     ServeHTTP_on c v next w = Inr run \<and>
     calls run =
       [Call_GetID (request w), Call_Generate,
        Call_SaveID (response w) (request w) ident,
        Call_Process (response w) (request w4) ident,
        Call_next (response w4) (request w4)] \<and>
     world run = next w4 \<and>
     GetRequestID (request w4) = ident \<and>
     (\<forall>bs' w'. 2 \<le> length bs' \<and> take 2 bs' \<noteq> take 2 bs \<longrightarrow>
        Generate_on c timestampIDGenerator (w\<lparr>rand_Reader := bs' # rest\<rparr>) \<noteq> Inr (ident, w')) \<and>
     (\<forall>r'. Generate_on c timestampIDGenerator (w\<lparr>request := r'\<rparr>) =
        Inr (ident, w2\<lparr>request := r'\<rparr>))"
proof -
  define ts where "ts = Sprintf_f (float64_quo (float64_of_int64 (UnixNano w)) 1000000000)"
  define ident where "ident = ts @ ''.'' @ EncodeToString (take 2 bs)"
  define w2 where "w2 = w\<lparr>rand_Reader := rest\<rparr>"
  define w4 where "w4 =
    w2\<lparr>request := (request w)\<lparr>r_Header := (r_Header (request w))(''X-Command-Id'' \<mapsto> [ident])\<rparr>,
       response := (response w)\<lparr>rw_Header := (rw_Header (response w))(''X-Command-ID'' \<mapsto> [ident])\<rparr>\<rparr>"
  have v: "v = injector_default"
    using assms(1) by (simp add: NewRequestIDInjector_unset)
  have slots: "idGenerator v = Some timestampIDGenerator"
    "idSource v = Some (sourceHeader DefaultIDHeader)"
    "idSaveHandler v = Some (saveHandlerHeader DefaultIDHeader)"
    "idPostProcessor v = Some (postProcessorHeader DefaultIDHeader)"
    by (simp_all add: v injector_default_def)
  have src: "GetID (sourceHeader DefaultIDHeader) w = ('''', w)"
    using assms(2) by simp
  have gen: "Generate_on c timestampIDGenerator w = Inr (ident, w2)"
    using Generate_on_timestamp_delivered [OF assms(3,4), of c]
    by (simp add: ident_def ts_def w2_def)
  have ne: "ident \<noteq> ''''"
    by (simp add: ident_def)
  have sav: "SaveID (saveHandlerHeader DefaultIDHeader) ident w2 =
      w2\<lparr>request := (request w)\<lparr>r_Header := (r_Header (request w))(''X-Command-Id'' \<mapsto> [ident])\<rparr>\<rparr>"
    by (simp add: saveHandlerHeader_SaveID_def Header_Set_def Canonical_Default w2_def)
  have pp: "Process (postProcessorHeader DefaultIDHeader) ident
      (SaveID (saveHandlerHeader DefaultIDHeader) ident w2) = w4"
    unfolding sav by (simp add: postProcessorHeader_Process_def w4_def w2_def DefaultIDHeader_def)
  define run where "run = \<lparr>calls =
       [Call_GetID (request w), Call_Generate,
        Call_SaveID (response w) (request w) ident,
        Call_Process (response w) (request w4) ident,
        Call_next (response w4) (request w4)], world = next w4\<rparr>"
  have gen': "timestampIDGenerator_Generate_on c w = Inr (ident, w2)"
    using gen by simp
  have pp': "postProcessorHeader_Process DefaultIDHeader ident
      (saveHandlerHeader_SaveID DefaultIDHeader ident w2) = w4"
    using pp by simp
  have sav': "saveHandlerHeader_SaveID DefaultIDHeader ident w2 =
      w2\<lparr>request := (request w)\<lparr>r_Header := (r_Header (request w))(''X-Command-Id'' \<mapsto> [ident])\<rparr>\<rparr>"
    using sav by simp
  have served: "ServeHTTP_on c v next w = Inr run"
    unfolding ServeHTTP_on_resolved [OF slots] src
    by (simp add: gen' pp' run_def) (simp add: sav', (simp add: w2_def w4_def)?)
  have log: "calls run =
       [Call_GetID (request w), Call_Generate,
        Call_SaveID (response w) (request w) ident,
        Call_Process (response w) (request w4) ident,
        Call_next (response w4) (request w4)]"
    and result: "world run = next w4"
    by (simp_all add: run_def)
  have got: "GetRequestID (request w4) = ident"
    by (simp add: GetRequestID_def Header_Get_def Canonical_Default w4_def w2_def)
  have fresh: "\<forall>bs' w'. 2 \<le> length bs' \<and> take 2 bs' \<noteq> take 2 bs \<longrightarrow>
        Generate_on c timestampIDGenerator (w\<lparr>rand_Reader := bs' # rest\<rparr>) \<noteq> Inr (ident, w')"
  proof (intro allI impI notI)
    fix bs' w'
    assume a: "2 \<le> length bs' \<and> take 2 bs' \<noteq> take 2 bs"
      and e: "Generate_on c timestampIDGenerator (w\<lparr>rand_Reader := bs' # rest\<rparr>) = Inr (ident, w')"
    have "rand_Reader (w\<lparr>rand_Reader := bs' # rest\<rparr>) = bs' # rest"
      by simp
    from Generate_on_timestamp_delivered [OF this, of c] a e
    have "ts @ ''.'' @ EncodeToString (take 2 bs') = ts @ ''.'' @ EncodeToString (take 2 bs)"
      by (simp add: ts_def ident_def del: EncodeToString.simps)
    then have "EncodeToString (take 2 bs') = EncodeToString (take 2 bs)"
      by simp
    then have "take 2 bs' = take 2 bs"
      by (rule EncodeToString_inj)
    with a show False
      by simp
  qed
  have indep: "\<forall>r'. Generate_on c timestampIDGenerator (w\<lparr>request := r'\<rparr>) =
        Inr (ident, w2\<lparr>request := r'\<rparr>)"
  proof
    fix r'
    have "rand_Reader (w\<lparr>request := r'\<rparr>) = bs # rest"
      using assms(3) by simp
    from Generate_on_timestamp_delivered [OF this assms(4), of c]
    show "Generate_on c timestampIDGenerator (w\<lparr>request := r'\<rparr>) = Inr (ident, w2\<lparr>request := r'\<rparr>)"
      by (simp add: ident_def ts_def w2_def)
  qed
  have i: "ident = Sprintf_f (float64_quo (float64_of_int64 (UnixNano w)) 1000000000) @ ''.'' @
               EncodeToString (take 2 bs)"
    by (simp add: ident_def ts_def)
  have "w2 = w\<lparr>rand_Reader := rest\<rparr>"
    by (simp add: w2_def)
  moreover have "w4 =
    w2\<lparr>request := (request w)\<lparr>r_Header := (r_Header (request w))(''X-Command-Id'' \<mapsto> [ident])\<rparr>,
       response := (response w)\<lparr>rw_Header := (rw_Header (response w))(''X-Command-ID'' \<mapsto> [ident])\<rparr>\<rparr>"
    by (simp add: w4_def)
  ultimately show ?thesis
    using i ne gen served log result got fresh indep by blast
qed

theorem ServeHTTP_generates_when_absent_witness:
  "NewRequestIDInjector (Some options_unset) = Inr (injector_default :: unit requestIDInjector) \<and>
   Header_Get (r_Header (request (world_of request_plain [[0xab, 0xcd]]))) DefaultIDHeader = '''' \<and>
   rand_Reader (world_of request_plain [[0xab, 0xcd]]) = [[0xab, 0xcd]] \<and>
   2 \<le> length [0xab, 0xcd :: byte] \<and>
   Generate_on Terminates timestampIDGenerator (world_of request_plain [[0xab, 0xcd]]) =
     Inr (''1446400000.123457.abcd'', world_of request_plain []) \<and>
   (\<exists>run.
      ServeHTTP_on Terminates injector_default handler_ok (world_of request_plain [[0xab, 0xcd]]) =
        Inr run \<and>
      calls run =
        [Call_GetID request_plain, Call_Generate,
         Call_SaveID response_fresh request_plain ''1446400000.123457.abcd'',
         Call_Process response_fresh
           (request_plain\<lparr>r_Header := [''X-Command-Id'' \<mapsto> [''1446400000.123457.abcd'']]\<rparr>)
           ''1446400000.123457.abcd'',
         Call_next
           (response_fresh\<lparr>rw_Header := [''X-Command-ID'' \<mapsto> [''1446400000.123457.abcd'']]\<rparr>)
           (request_plain\<lparr>r_Header := [''X-Command-Id'' \<mapsto> [''1446400000.123457.abcd'']]\<rparr>)] \<and>
      world run =
        handler_ok
          ((world_of request_plain [])
             \<lparr>request :=
                request_plain\<lparr>r_Header := [''X-Command-Id'' \<mapsto> [''1446400000.123457.abcd'']]\<rparr>,
              response :=
                response_fresh\<lparr>rw_Header := [''X-Command-ID'' \<mapsto> [''1446400000.123457.abcd'']]\<rparr>\<rparr>)) \<and>
   Generate_on Terminates timestampIDGenerator (world_of request_plain [[0x12, 0x34]]) \<noteq>
     Inr (''1446400000.123457.abcd'', world_of request_plain [])"
proof -
  let ?w = "world_of request_plain [[0xab, 0xcd]]"
  have h1: "NewRequestIDInjector (Some options_unset) = Inr (injector_default :: unit requestIDInjector)"
    by (rule NewRequestIDInjector_unset)
  have h2: "Header_Get (r_Header (request ?w)) DefaultIDHeader = ''''"
    by (simp add: world_of_def request_plain_def Header_Get_def)
  have h3: "rand_Reader ?w = [0xab, 0xcd] # []"
    by (simp add: world_of_def)
  have h4: "2 \<le> length [0xab, 0xcd :: byte]"
    by simp
  have e: "EncodeToString (take 2 [0xab, 0xcd]) = ''abcd''"
    by code_simp
  have u: "UnixNano ?w = 1446400000123456789"
    by (simp add: world_of_def)
  have r: "request ?w = request_plain" "response ?w = response_fresh"
    "r_Header request_plain = Map.empty" "rw_Header response_fresh = Map.empty"
    by (simp_all add: world_of_def request_plain_def response_fresh_def)
  have w2: "?w\<lparr>rand_Reader := []\<rparr> = world_of request_plain []"
    by (simp add: world_of_def)
  have w2': "?w\<lparr>rand_Reader := [0x12, 0x34] # []\<rparr> = world_of request_plain [[0x12, 0x34]]"
    by (simp add: world_of_def)
  have d: "2 \<le> length [0x12, 0x34 :: byte] \<and> take 2 [0x12, 0x34 :: byte] \<noteq> take 2 [0xab, 0xcd]"
    by simp
  from ServeHTTP_generates_when_absent [OF h1 h2 h3 h4, of Terminates handler_ok]
  obtain run ident w2 w4 where
    i: "ident = Sprintf_f (float64_quo (float64_of_int64 (UnixNano ?w)) 1000000000) @ ''.'' @
               EncodeToString (take 2 [0xab, 0xcd])"
    and s: "w2 = ?w\<lparr>rand_Reader := []\<rparr>"
    and g: "Generate_on Terminates timestampIDGenerator ?w = Inr (ident, w2)"
    and f: "w4 = w2\<lparr>request := (request ?w)\<lparr>r_Header :=
                (r_Header (request ?w))(''X-Command-Id'' \<mapsto> [ident])\<rparr>,
             response := (response ?w)\<lparr>rw_Header :=
                (rw_Header (response ?w))(''X-Command-ID'' \<mapsto> [ident])\<rparr>\<rparr>"
    and served: "ServeHTTP_on Terminates injector_default handler_ok ?w = Inr run"
    and log: "calls run =
       [Call_GetID (request ?w), Call_Generate,
        Call_SaveID (response ?w) (request ?w) ident,
        Call_Process (response ?w) (request w4) ident,
        Call_next (response w4) (request w4)]"
    and result: "world run = handler_ok w4"
    and fresh: "\<forall>bs' w'. 2 \<le> length bs' \<and> take 2 bs' \<noteq> take 2 [0xab, 0xcd] \<longrightarrow>
        Generate_on Terminates timestampIDGenerator (?w\<lparr>rand_Reader := bs' # []\<rparr>) \<noteq>
          Inr (ident, w')"
    by blast
  have i': "ident = ''1446400000.123457.abcd''"
    unfolding i u e by (simp add: timestamp_example)
  have f': "w4 = (world_of request_plain [])
             \<lparr>request :=
                request_plain\<lparr>r_Header := [''X-Command-Id'' \<mapsto> [''1446400000.123457.abcd'']]\<rparr>,
              response :=
                response_fresh\<lparr>rw_Header := [''X-Command-ID'' \<mapsto> [''1446400000.123457.abcd'']]\<rparr>\<rparr>"
    unfolding f s w2 r i' by simp
  have g': "Generate_on Terminates timestampIDGenerator ?w =
      Inr (''1446400000.123457.abcd'', world_of request_plain [])"
    using g unfolding s w2 i' .
  have log': "calls run =
        [Call_GetID request_plain, Call_Generate,
         Call_SaveID response_fresh request_plain ''1446400000.123457.abcd'',
         Call_Process response_fresh
           (request_plain\<lparr>r_Header := [''X-Command-Id'' \<mapsto> [''1446400000.123457.abcd'']]\<rparr>)
           ''1446400000.123457.abcd'',
         Call_next
           (response_fresh\<lparr>rw_Header := [''X-Command-ID'' \<mapsto> [''1446400000.123457.abcd'']]\<rparr>)
           (request_plain\<lparr>r_Header := [''X-Command-Id'' \<mapsto> [''1446400000.123457.abcd'']]\<rparr>)]"
    unfolding log r i' unfolding f' by simp
  have result': "world run = handler_ok ((world_of request_plain [])
             \<lparr>request :=
                request_plain\<lparr>r_Header := [''X-Command-Id'' \<mapsto> [''1446400000.123457.abcd'']]\<rparr>,
              response :=
                response_fresh\<lparr>rw_Header := [''X-Command-ID'' \<mapsto> [''1446400000.123457.abcd'']]\<rparr>\<rparr>)"
    unfolding result f' ..
  from fresh d have "Generate_on Terminates timestampIDGenerator
      (?w\<lparr>rand_Reader := [0x12, 0x34] # []\<rparr>) \<noteq> Inr (ident, world_of request_plain [])"
    by blast
  then have fresh': "Generate_on Terminates timestampIDGenerator
      (world_of request_plain [[0x12, 0x34]]) \<noteq>
      Inr (''1446400000.123457.abcd'', world_of request_plain [])"
    unfolding w2' i' .
  from h1 h2 h3 h4 g' served log' result' fresh' show ?thesis
    by blast
qed




text \<open>
  C4. Options with no field set and options that name the timestamp generator and the
  header-based source, save handler and post-processor on \<^verbatim>\<open>X-Command-ID\<close> build the
  same injector, so serving any request with either gives the same log, the same state
  and the same call of the downstream handler. The defaults are filled in by the
  constructor: the injector it returns has all four fields set (applying the defaults
  again changes nothing), and the per-request routine itself contains no defaulting: on
  an injector with unset fields it panics.
\<close>

theorem defaults_applied_at_construction:
  "NewRequestIDInjector (Some options_unset) = NewRequestIDInjector (Some options_explicit) \<and>
   NewRequestIDInjector (Some options_unset) = Inr injector_default \<and>
   applyDefaults injector_default = injector_default \<and>
   (\<exists>v v'. NewRequestIDInjector (Some options_unset) = Inr v \<and>
            NewRequestIDInjector (Some options_explicit) = Inr v' \<and>
            ServeHTTP v next w = ServeHTTP v' next w) \<and>
   ServeHTTP \<lparr>idGenerator = None, idSource = None, idSaveHandler = None, idPostProcessor = None\<rparr>
     next w = Inl NilPointerDereference"
  by (simp add: NewRequestIDInjector_unset NewRequestIDInjector_explicit
      applyDefaults_injector_default ServeHTTP_nil_fields)

subsection \<open>The header-based post-processor\<close>

text \<open>
  C10. \<^verbatim>\<open>Process\<close> of the header-based post-processor assigns the one-element list
  to the response's header map under the very string it was built with, and changes
  nothing else. For the default name the key \<^verbatim>\<open>X-Command-ID\<close> is not the canonical
  key \<^verbatim>\<open>X-Command-Id\<close>: what is stored under the canonical key stays as it was, and
  a canonicalizing lookup (\<^verbatim>\<open>Header.Get\<close>) returns what it returned before the write
  (the empty string when nothing is stored under the canonical key), not the value
  just written.
\<close>

theorem postProcessorHeader_Process_exact_key:
  "(let w' = Process (postProcessorHeader header) ident w
    in rw_Header (response w') = (rw_Header (response w))(header \<mapsto> [ident]) \<and>
       w' = w\<lparr>response := (response w)\<lparr>rw_Header := rw_Header (response w')\<rparr>\<rparr>) \<and>
   DefaultIDHeader = ''X-Command-ID'' \<and>
   CanonicalMIMEHeaderKey DefaultIDHeader = ''X-Command-Id'' \<and>
   (let w' = Process (postProcessorHeader DefaultIDHeader) ident w
    in rw_Header (response w') ''X-Command-ID'' = Some [ident] \<and>
       rw_Header (response w') ''X-Command-Id'' = rw_Header (response w) ''X-Command-Id'' \<and>
       Header_Get (rw_Header (response w')) DefaultIDHeader =
         Header_Get (rw_Header (response w)) DefaultIDHeader \<and>
       (rw_Header (response w) ''X-Command-Id'' = None \<longrightarrow>
          Header_Get (rw_Header (response w')) DefaultIDHeader = ''''))"
  by (simp add: postProcessorHeader_Process_def Header_Get_def Canonical_Default)
    (simp add: DefaultIDHeader_def)

theorem postProcessorHeader_Process_exact_key_witness:
  "rw_Header (response (world_of request_abc123 [])) ''X-Command-Id'' = None \<and>
   (let w' = Process (postProcessorHeader DefaultIDHeader) ''abc123'' (world_of request_abc123 [])
    in rw_Header (response w') ''X-Command-ID'' = Some [''abc123''] \<and>
       rw_Header (response w') ''X-Command-Id'' = None \<and>
       Header_Get (rw_Header (response w')) DefaultIDHeader = '''')"
proof -
  have h: "rw_Header (response (world_of request_abc123 [])) ''X-Command-Id'' = None"
    by (simp add: world_of_def response_fresh_def)
  note t = postProcessorHeader_Process_exact_key
    [of DefaultIDHeader "''abc123''" "world_of request_abc123 []", unfolded Let_def]
  show ?thesis
    unfolding Let_def using h t by metis
qed

subsection \<open>The generators\<close>

text \<open>
  C6, as amended. A call of \<^verbatim>\<open>Generate\<close> of the random generator whose read of 16
  bytes from the entropy source succeeds returns the hexadecimal encoding of the 16
  bytes read, which is 32 characters long and made of the characters
  \<^verbatim>\<open>0123456789abcdef\<close>. When the read fails, the call returns the empty string if
  \<^verbatim>\<open>crypto/rand.Read\<close> returns the error (Go through 1.23), and does not return if
  \<^verbatim>\<open>crypto/rand.Read\<close> ends the program on a failed read (Go 1.24 and later). A
  call that returns, returns a string and no error.
\<close>

theorem randomIDGenerator_Generate_outcomes:
  "Generate_on c randomIDGenerator w =
     (case rand_Reader w of
        [] \<Rightarrow> if c = Terminates then Inl FatalError else Inr ('''', w)
      | bs # rest \<Rightarrow>
          if length bs < 16
          then (if c = Terminates then Inl FatalError else Inr ('''', w\<lparr>rand_Reader := rest\<rparr>))
          else Inr (EncodeToString (take 16 bs), w\<lparr>rand_Reader := rest\<rparr>)) \<and>
   snd (fst (rand_Read (replicate 16 0) w)) =
     (case rand_Reader w of [] \<Rightarrow> True | bs # _ \<Rightarrow> length bs < 16) \<and>
   (\<forall>s w'. Generate_on c randomIDGenerator w = Inr (s, w') \<longrightarrow>
      (if snd (fst (rand_Read (replicate 16 0) w)) then s = ''''
       else length s = 32 \<and> set s \<subseteq> set ''0123456789abcdef''))"
proof -
  have hex: "set (EncodeToString bs) \<subseteq> set ''0123456789abcdef''" for bs
    using EncodeToString_hex [of bs] by (simp add: hextable_def)
  have len: "\<not> length bs < 16 \<Longrightarrow> length (EncodeToString (take 16 bs)) = 32" for bs :: "byte list"
    by (simp add: EncodeToString_length)
  have eq: "Generate_on c randomIDGenerator w =
     (case rand_Reader w of
        [] \<Rightarrow> if c = Terminates then Inl FatalError else Inr ('''', w)
      | bs # rest \<Rightarrow>
          if length bs < 16
          then (if c = Terminates then Inl FatalError else Inr ('''', w\<lparr>rand_Reader := rest\<rparr>))
          else Inr (EncodeToString (take 16 bs), w\<lparr>rand_Reader := rest\<rparr>))"
    by (cases "rand_Reader w")
      (simp_all add: randomIDGenerator_Generate_on_def rand_Read_on_def rand_Read_sixteen
        del: EncodeToString.simps)
  have err: "snd (fst (rand_Read (replicate 16 0) w)) =
     (case rand_Reader w of [] \<Rightarrow> True | bs # _ \<Rightarrow> length bs < 16)"
    by (cases "rand_Reader w") (simp_all add: rand_Read_sixteen)
  have res: "\<forall>s w'. Generate_on c randomIDGenerator w = Inr (s, w') \<longrightarrow>
      (if snd (fst (rand_Read (replicate 16 0) w)) then s = ''''
       else length s = 32 \<and> set s \<subseteq> set ''0123456789abcdef'')"
    unfolding eq err using hex len
    by (cases "rand_Reader w") (auto split: if_splits simp del: EncodeToString.simps)
  from eq err res show ?thesis
    by blast
qed

theorem randomIDGenerator_Generate_outcomes_witness:
  "Generate_on Terminates randomIDGenerator
     (world_of request_plain [[0, 1, 2, 3, 4, 5, 6, 7, 8, 9, 10, 11, 12, 13, 14, 15]]) =
     Inr (''000102030405060708090a0b0c0d0e0f'', world_of request_plain []) \<and>
   length ''000102030405060708090a0b0c0d0e0f'' = 32 \<and>
   Generate_on ReturnsError randomIDGenerator (world_of request_plain [[0, 1, 2]]) =
     Inr ('''', world_of request_plain [])"
proof -
  have e: "EncodeToString [0, 1, 2, 3, 4, 5, 6, 7, 8, 9, 10, 11, 12, 13, 14, 15] =
      ''000102030405060708090a0b0c0d0e0f''"
    by code_simp
  have a: "rand_Reader (world_of request_plain bs) = bs" for bs
    by (simp add: world_of_def)
  have u: "(world_of request_plain (bs # rest))\<lparr>rand_Reader := rest\<rparr> = world_of request_plain rest"
    for bs rest
    by (simp add: world_of_def)
  show ?thesis
    using randomIDGenerator_Generate_outcomes
      [of Terminates "world_of request_plain [[0, 1, 2, 3, 4, 5, 6, 7, 8, 9, 10, 11, 12, 13, 14, 15]]"]
      randomIDGenerator_Generate_outcomes [of ReturnsError "world_of request_plain [[0, 1, 2]]"]
    unfolding a by (simp add: e u del: EncodeToString.simps)
qed

text \<open>
  C6 as stated fails under the contract of Go 1.24 and later: when the entropy source
  delivers 3 of the 16 bytes, the read fails and the call does not return the empty
  string; it does not return.
\<close>

theorem randomIDGenerator_Generate_terminates_counterexample:
  "snd (fst (rand_Read (replicate 16 0) (world_of request_plain [[0, 1, 2]]))) \<and>
   Generate_on Terminates randomIDGenerator (world_of request_plain [[0, 1, 2]]) = Inl FatalError"
  by (simp add: randomIDGenerator_Generate_on_def rand_Read_on_def rand_Read_sixteen world_of_def)

text \<open>
  C5, as amended. A call of \<^verbatim>\<open>Generate\<close> of the timestamp generator whose read of
  two bytes from the entropy source succeeds returns the current time as seconds since
  the epoch with sub-second precision (the nanosecond clock reading divided by
  \<open>10\<^sup>9\<close>, the fractional part retained), formatted as a decimal string, followed by a
  dot and the four lowercase hexadecimal characters that encode the two bytes read.
  When the read fails and \<^verbatim>\<open>crypto/rand.Read\<close> returns the error (Go through 1.23),
  the call still returns such a string, and the four characters encode the buffer as
  the read left it: the bytes delivered before the failure, followed by zero bytes;
  they are \<^verbatim>\<open>0000\<close> when no byte was delivered. When the read fails and
  \<^verbatim>\<open>crypto/rand.Read\<close> ends the program on a failed read (Go 1.24 and later), the
  call does not return.

  In the statement the decimal string is spelled out as \<^verbatim>\<open>%f\<close> prints it: a minus
  sign for a negative reading, the integer part, a dot and six decimals, of the
  binary64 quotient rounded to six decimals, which is within 2549 nanoseconds of the
  clock reading.
\<close>

theorem timestampIDGenerator_Generate_format:
  "let n = sint (UnixNano w);
       micro = micros (float64_quo (float64_of_int64 (UnixNano w)) 1000000000);
       ip = itoa (micro div 10 ^ 6);
       fd = itoa (micro mod 10 ^ 6);
       fp = replicate (6 - length fd) CHR ''0'' @ fd;
       delivered = (case rand_Reader w of [] \<Rightarrow> [] | bs # _ \<Rightarrow> take 2 bs);
       sfx = EncodeToString (delivered @ replicate (2 - length delivered) 0)
   in Generate_on c timestampIDGenerator w =
        (if length delivered < 2 \<and> c = Terminates then Inl FatalError
         else Inr ((if n < 0 then ''-'' else '''') @ ip @ ''.'' @ fp @ ''.'' @ sfx,
                   w\<lparr>rand_Reader := tl (rand_Reader w)\<rparr>)) \<and>
      ip \<noteq> '''' \<and> set ip \<subseteq> set ''0123456789'' \<and>
      length fp = 6 \<and> set fp \<subseteq> set ''0123456789'' \<and>
      0 \<le> micro \<and> \<bar>1000 * micro - \<bar>n\<bar>\<bar> \<le> 2549 \<and>
      length sfx = 4 \<and> set sfx \<subseteq> set ''0123456789abcdef'' \<and>
      snd (fst (rand_Read (replicate 2 0) w)) = (length delivered < 2) \<and>
      (delivered = [] \<longrightarrow> sfx = ''0000'')"
proof -
  note f = timestamp_format [of w, unfolded Let_def]
  from f have e: "snd (fst (rand_Read (replicate 2 0) w)) =
      (length (case rand_Reader w of [] \<Rightarrow> [] | bs # _ \<Rightarrow> take 2 bs) < 2)"
    by blast
  show ?thesis
    unfolding Let_def Generate_on_timestamp e [symmetric]
    using f by simp
qed

theorem timestampIDGenerator_Generate_format_witness:
  "(case rand_Reader (world_of request_plain []) of [] \<Rightarrow> [] | bs # _ \<Rightarrow> take 2 bs) = [] \<and>
   Generate_on ReturnsError timestampIDGenerator (world_of request_plain []) =
     Inr (''1446400000.123457.0000'', world_of request_plain []) \<and>
   \<bar>1000 * 1446400000123457 - \<bar>sint (UnixNano (world_of request_plain []))\<bar>\<bar> \<le> 2549"
proof -
  have d: "(case rand_Reader (world_of request_plain []) of [] \<Rightarrow> [] | bs # _ \<Rightarrow> take 2 bs) = []"
    by (simp add: world_of_def)
  have m: "micros (float64_quo (float64_of_int64 1446400000123456789) 1000000000) = 1446400000123457"
    by code_simp
  have u: "UnixNano (world_of request_plain []) = 1446400000123456789"
    by (simp add: world_of_def)
  have i: "itoa 1446400000 = ''1446400000''" "itoa 123457 = ''123457''"
    by code_simp+
  have r: "(world_of request_plain [])\<lparr>rand_Reader := tl (rand_Reader (world_of request_plain []))\<rparr> =
      world_of request_plain []"
    by (simp add: world_of_def)
  show ?thesis
    using d timestampIDGenerator_Generate_format [of "world_of request_plain []" ReturnsError]
    unfolding Let_def u m d r
    by (simp add: i)
qed

text \<open>
  C5 as stated fails in two ways. Under the contract of Go 1.24 and later a call whose
  read fails does not return. Under the contract that returns the error, a read that
  delivers one byte, \<^verbatim>\<open>0xab\<close>, and then fails leaves that byte in the buffer, and
  the suffix is \<^verbatim>\<open>ab00\<close>, not \<^verbatim>\<open>0000\<close>.
\<close>

theorem timestampIDGenerator_Generate_counterexample:
  "snd (fst (rand_Read (replicate 2 0) (world_of request_plain []))) \<and>
   Generate_on Terminates timestampIDGenerator (world_of request_plain []) = Inl FatalError \<and>
   snd (fst (rand_Read (replicate 2 0) (world_of request_plain [[0xab]]))) \<and>
   Generate_on ReturnsError timestampIDGenerator (world_of request_plain [[0xab]]) =
     Inr (''1446400000.123457.ab00'', world_of request_plain [])"
proof -
  have h: "EncodeToString [0xab, 0] = ''ab00''"
    by code_simp
  show ?thesis
    by (simp add: timestampIDGenerator_Generate_on_def rand_Read_on_def rand_Read_def
        world_of_def Let_def timestamp_example h del: EncodeToString.simps)
qed

end
